theory Spec2Isabelle
  imports Complex_Main
begin

section \<open>The touch-input module (src/input/TouchHelper.cpp)\<close>

text \<open>
  A shallow embedding of \<^verbatim>\<open>namespace Input\<close>. The module keeps its state in file-level
  statics; here they are the fields of one record that every entry point takes and
  returns. The C++ \<^verbatim>\<open>float\<close> is read as \<open>real\<close> (exact arithmetic, rounding left
  out), \<^verbatim>\<open>int\<close> and \<^verbatim>\<open>long long\<close> as \<open>int\<close>: the integers of the module are
  slot numbers, device indices, identities and millisecond clock readings, none of which
  comes near the 32 or 64 bit limits. The clock (\<^verbatim>\<open>GetCurrentTimeMs\<close>) is an input:
  each step takes the reading \<open>now\<close> it observes.
\<close>

subsection \<open>My_Vector2\<close>

text \<open>
  Modelled from the spec: \<^verbatim>\<open>core/VectorStruct.h\<close> is not among the sources. The
  module uses a two-component float vector with a zero default, component-wise
  \<^verbatim>\<open>+ - *\<close>, division and multiplication by a scalar, and \<^verbatim>\<open>length()\<close>, the
  Euclidean norm (the spec's "magnitude").
\<close>

record My_Vector2 =
  vx :: real
  vy :: real

definition vec0 :: My_Vector2 where
  "vec0 = \<lparr>vx = 0, vy = 0\<rparr>"

definition vec_add :: "My_Vector2 \<Rightarrow> My_Vector2 \<Rightarrow> My_Vector2" where
  "vec_add a b = \<lparr>vx = vx a + vx b, vy = vy a + vy b\<rparr>"

definition vec_sub :: "My_Vector2 \<Rightarrow> My_Vector2 \<Rightarrow> My_Vector2" where
  "vec_sub a b = \<lparr>vx = vx a - vx b, vy = vy a - vy b\<rparr>"

definition vec_mul :: "My_Vector2 \<Rightarrow> My_Vector2 \<Rightarrow> My_Vector2" where
  "vec_mul a b = \<lparr>vx = vx a * vx b, vy = vy a * vy b\<rparr>"

definition vec_scale :: "My_Vector2 \<Rightarrow> real \<Rightarrow> My_Vector2" where
  "vec_scale a k = \<lparr>vx = vx a * k, vy = vy a * k\<rparr>"

text \<open>
  Division by a scalar. A zero divisor gives an infinity or a NaN in C++ and \<open>0\<close> in
  HOL; \<open>Swipe\<close> below, the one caller whose divisor a claim is about, tests it first.
\<close>

definition vec_div :: "My_Vector2 \<Rightarrow> real \<Rightarrow> My_Vector2" where
  "vec_div a k = \<lparr>vx = vx a / k, vy = vy a / k\<rparr>"

definition vec_length :: "My_Vector2 \<Rightarrow> real" where
  "vec_length a = sqrt (vx a * vx a + vy a * vy a)"

subsection \<open>Kernel input events\<close>

text \<open>
  \<^verbatim>\<open>struct input_event\<close> of \<^verbatim>\<open>linux/input.h\<close>, without its time stamp (the
  module never reads it and writes it as zero), and the event codes of
  \<^verbatim>\<open>linux/input-event-codes.h\<close> the module names.
\<close>

record input_event =
  ie_type :: nat
  ie_code :: nat
  ie_value :: int

definition EV_SYN :: nat where [simp]: "EV_SYN = 0"
definition EV_KEY :: nat where [simp]: "EV_KEY = 1"
definition EV_ABS :: nat where [simp]: "EV_ABS = 3"
definition SYN_REPORT :: nat where [simp]: "SYN_REPORT = 0"
definition SYN_MT_REPORT :: nat where [simp]: "SYN_MT_REPORT = 2"
definition ABS_X :: nat where [simp]: "ABS_X = 0"
definition ABS_Y :: nat where [simp]: "ABS_Y = 1"
definition ABS_MT_SLOT :: nat where [simp]: "ABS_MT_SLOT = 47"
definition ABS_MT_POSITION_X :: nat where [simp]: "ABS_MT_POSITION_X = 53"
definition ABS_MT_POSITION_Y :: nat where [simp]: "ABS_MT_POSITION_Y = 54"
definition ABS_MT_TRACKING_ID :: nat where [simp]: "ABS_MT_TRACKING_ID = 57"
definition ABS_MT_PRESSURE :: nat where [simp]: "ABS_MT_PRESSURE = 58"
definition BTN_TOOL_FINGER :: nat where [simp]: "BTN_TOOL_FINGER = 325"
definition BTN_TOUCH :: nat where [simp]: "BTN_TOUCH = 330"

definition MAX_FINGERS :: nat where [simp]: "MAX_FINGERS = 10"

definition event :: "nat \<Rightarrow> nat \<Rightarrow> int \<Rightarrow> input_event" where
  "event t c v = \<lparr>ie_type = t, ie_code = c, ie_value = v\<rparr>"

subsection \<open>The data model (include/input/TouchHelper.h)\<close>

record TouchPoint =
  pos :: My_Vector2
  startPos :: My_Vector2
  velocity :: My_Vector2
  touch_id :: int
  isDown :: bool
  pressure :: real
  timestamp :: int

text \<open>The constructor \<^verbatim>\<open>TouchPoint()\<close>.\<close>

definition TouchPoint_init :: TouchPoint where
  "TouchPoint_init =
     \<lparr>pos = vec0, startPos = vec0, velocity = vec0, touch_id = 0, isDown = False,
      pressure = 1, timestamp = 0\<rparr>"

record input_absinfo =
  minimum :: int
  maximum :: int

record TouchDevice =
  fd :: int
  scaleX :: real
  scaleY :: real
  absX :: input_absinfo
  absY :: input_absinfo
  fingers :: "TouchPoint list"

text \<open>The constructor \<^verbatim>\<open>TouchDevice()\<close>: ten default slots.\<close>

definition TouchDevice_init :: TouchDevice where
  "TouchDevice_init =
     \<lparr>fd = - 1, scaleX = 1, scaleY = 1,
      absX = \<lparr>minimum = 0, maximum = 0\<rparr>, absY = \<lparr>minimum = 0, maximum = 0\<rparr>,
      fingers = replicate MAX_FINGERS TouchPoint_init\<rparr>"

datatype GestureType =
  GestureType_None | GestureType_Tap | GestureType_DoubleTap | GestureType_LongPress
  | GestureType_Swipe | GestureType_Pinch | GestureType_Rotate

record GestureData =
  gesture_type :: GestureType
  position :: My_Vector2
  direction :: My_Vector2
  distance :: real
  scale :: real
  rotation :: real
  fingerCount :: int

definition GestureData_init :: GestureData where
  "GestureData_init =
     \<lparr>gesture_type = GestureType_None, position = vec0, direction = vec0, distance = 0,
      scale = 1, rotation = 0, fingerCount = 0\<rparr>"

record GestureConfig =
  tapMaxDistance :: real
  tapMaxDuration :: int
  doubleTapMaxInterval :: int
  longPressMinDuration :: int
  swipeMinDistance :: real
  pinchMinDistance :: real
  rotateMinAngle :: real

definition GestureConfig_init :: GestureConfig where
  "GestureConfig_init =
     \<lparr>tapMaxDistance = 20, tapMaxDuration = 300, doubleTapMaxInterval = 400,
      longPressMinDuration = 500, swipeMinDistance = 50, pinchMinDistance = 20,
      rotateMinAngle = 1 / 10\<rparr>"

text \<open>The anonymous struct \<^verbatim>\<open>g_gestureState\<close>, zero-initialised.\<close>

record GestureState =
  lastTapTime :: int
  lastTapPos :: My_Vector2
  tapCount :: int
  touchStartTime :: int
  touchStartPos :: My_Vector2
  isLongPressing :: bool

definition GestureState_init :: GestureState where
  "GestureState_init =
     \<lparr>lastTapTime = 0, lastTapPos = vec0, tapCount = 0, touchStartTime = 0,
      touchStartPos = vec0, isLongPressing = False\<rparr>"

text \<open>
  The statics of the module. A callback is modelled by whether one is registered and by
  the log of what it was handed: \<open>delivered\<close> for the gesture callback, \<open>observed\<close> (the
  number of calls) for the touch callback. \<open>writes\<close> logs each \<^verbatim>\<open>write\<close> that
  \<open>Upload\<close> issues, with the descriptor it was issued on. \<open>isFirstDown\<close> is the static of
  \<open>Upload\<close>, \<open>lastCallbackTime\<close> the static of the reader, and \<open>currentSlot d\<close> the local
  \<^verbatim>\<open>currentSlot\<close> of the reader thread of device \<open>d\<close>.
\<close>

record touch_state =
  g_touchScale :: My_Vector2
  g_screenSize :: My_Vector2
  g_devices :: "TouchDevice list"
  g_outputFd :: int
  g_orientation :: int
  g_initialized :: bool
  g_readOnly :: bool
  g_gestureEnabled :: bool
  g_touchCallback :: bool
  g_gestureCallback :: bool
  g_gestureConfig :: GestureConfig
  g_gestureState :: GestureState
  isFirstDown :: bool
  lastCallbackTime :: int
  currentSlot :: "nat \<Rightarrow> nat"
  delivered :: "GestureData list"
  observed :: nat
  writes :: "(int \<times> input_event list) list"

text \<open>The state at program start, before any call.\<close>

definition state_init :: touch_state where
  "state_init =
     \<lparr>g_touchScale = vec0, g_screenSize = vec0, g_devices = [], g_outputFd = - 1,
      g_orientation = 0, g_initialized = False, g_readOnly = False,
      g_gestureEnabled = False, g_touchCallback = False, g_gestureCallback = False,
      g_gestureConfig = GestureConfig_init, g_gestureState = GestureState_init,
      isFirstDown = True, lastCallbackTime = 0, currentSlot = (\<lambda>d. 0),
      delivered = [], observed = 0, writes = []\<rparr>"

subsection \<open>InjectionEngine: Upload and the synthetic entry points\<close>

text \<open>
  The six events \<open>Upload\<close> writes for one finger that is down.
  \<^verbatim>\<open>(int)finger.pos.x\<close> truncates towards zero.
\<close>

definition float_to_int :: "real \<Rightarrow> int" where
  "float_to_int r = (if 0 \<le> r then \<lfloor>r\<rfloor> else \<lceil>r\<rceil>)"

definition finger_events :: "TouchPoint \<Rightarrow> input_event list" where
  "finger_events finger =
     [event EV_ABS ABS_X (float_to_int (vx (pos finger))),
      event EV_ABS ABS_Y (float_to_int (vy (pos finger))),
      event EV_ABS ABS_MT_POSITION_X (float_to_int (vx (pos finger))),
      event EV_ABS ABS_MT_POSITION_Y (float_to_int (vy (pos finger))),
      event EV_ABS ABS_MT_TRACKING_ID (touch_id finger),
      event EV_SYN SYN_MT_REPORT 0]"

text \<open>
  The nested loops of \<open>Upload\<close> over the devices and their fingers, run over the
  fingers of all devices in that order. \<open>fingerCount\<close> is the counter before the test
  \<^verbatim>\<open>fingerCount++ > 20\<close>; \<^verbatim>\<open>goto finish\<close> leaves both loops with the events
  written so far.
\<close>

fun Upload_fingers :: "TouchPoint list \<Rightarrow> nat \<Rightarrow> input_event list \<Rightarrow> input_event list" where
  "Upload_fingers [] n evs = evs"
| "Upload_fingers (finger # rest) n evs =
     (if isDown finger then
        (if n > 20 then evs
         else Upload_fingers rest (n + 1) (evs @ finger_events finger))
      else Upload_fingers rest n evs)"

definition all_fingers :: "touch_state \<Rightarrow> TouchPoint list" where
  "all_fingers st = concat (map fingers (g_devices st))"

text \<open>\<^verbatim>\<open>g_input.downEvent\<close>, which lies in memory right before \<^verbatim>\<open>g_input.event\<close>.\<close>

definition downEvent :: "input_event list" where
  "downEvent = [event EV_KEY BTN_TOUCH 1, event EV_KEY BTN_TOOL_FINGER 1]"

text \<open>
  \<open>Upload\<close>. \<open>evs\<close> is \<^verbatim>\<open>g_input.event[0 .. eventCount)\<close> after the loops. With
  \<open>hasTouch\<close> and \<open>isFirstDown\<close> the write starts at \<^verbatim>\<open>&g_input\<close> and is two events
  longer, so the two key-down events come first. The write is logged with its
  descriptor; nothing checks its result.
\<close>

definition Upload :: "touch_state \<Rightarrow> touch_state" where
  "Upload st =
     (let evs = Upload_fingers (all_fingers st) 0 [];
          hasTouch = (evs \<noteq> []);
          evs1 =
            (if evs = [] then
               (if isFirstDown st then [event EV_SYN SYN_MT_REPORT 0]
                else [event EV_SYN SYN_MT_REPORT 0,
                      event EV_KEY BTN_TOUCH 0, event EV_KEY BTN_TOOL_FINGER 0])
             else evs);
          first1 = (if evs = [] then (if isFirstDown st then isFirstDown st else True)
                    else isFirstDown st);
          evs2 = evs1 @ [event EV_SYN SYN_REPORT 0]
      in if hasTouch \<and> first1 then
           st\<lparr>isFirstDown := False, writes := writes st @ [(g_outputFd st, downEvent @ evs2)]\<rparr>
         else
           st\<lparr>isFirstDown := first1, writes := writes st @ [(g_outputFd st, evs2)]\<rparr>)"

text \<open>The buffer of the one write a call of \<open>Upload\<close> issues.\<close>

definition Upload_buffer :: "touch_state \<Rightarrow> input_event list" where
  "Upload_buffer st = snd (last (writes (Upload st)))"

text \<open>
  \<^verbatim>\<open>g_devices[0].fingers[9]\<close>, updated in place. The entry points return at once
  when the registry is empty, so device 0 exists where this is used.
\<close>

definition update_finger ::
  "nat \<Rightarrow> nat \<Rightarrow> (TouchPoint \<Rightarrow> TouchPoint) \<Rightarrow> touch_state \<Rightarrow> touch_state" where
  "update_finger d s f st =
     st\<lparr>g_devices :=
          (g_devices st)[d := (g_devices st ! d)
             \<lparr>fingers := (fingers (g_devices st ! d))[s := f (fingers (g_devices st ! d) ! s)]\<rparr>]\<rparr>"

definition Down :: "real \<Rightarrow> real \<Rightarrow> int \<Rightarrow> int \<Rightarrow> touch_state \<Rightarrow> touch_state" where
  "Down x y touchId now st =
     (if g_devices st = [] then st
      else Upload (update_finger 0 9
             (\<lambda>touch. touch
                \<lparr>pos := vec_mul \<lparr>vx = x, vy = y\<rparr> (g_touchScale st),
                 startPos := vec_mul \<lparr>vx = x, vy = y\<rparr> (g_touchScale st),
                 touch_id := (if touchId \<ge> 0 then touchId else 19),
                 isDown := True,
                 timestamp := now\<rparr>) st))"

definition Move :: "real \<Rightarrow> real \<Rightarrow> int \<Rightarrow> touch_state \<Rightarrow> touch_state" where
  "Move x y touchId st =
     (if g_devices st = [] then st
      else Upload (update_finger 0 9
             (\<lambda>touch. touch\<lparr>pos := vec_mul \<lparr>vx = x, vy = y\<rparr> (g_touchScale st)\<rparr>) st))"

definition Up :: "int \<Rightarrow> touch_state \<Rightarrow> touch_state" where
  "Up touchId st =
     (if g_devices st = [] then st
      else Upload (update_finger 0 9 (\<lambda>touch. touch\<lparr>isDown := False\<rparr>) st))"

text \<open>
  \<open>Swipe\<close>: \<^verbatim>\<open>int steps = durationMs / 16\<close> is C++ integer division, which truncates
  towards zero. The quotient \<^verbatim>\<open>(end - start) / steps\<close> is taken without a test; a
  zero \<open>steps\<close> is the error value here. The sleeps between the calls change no state.
\<close>

definition c_div :: "int \<Rightarrow> int \<Rightarrow> int" where
  "c_div a b = sgn a * sgn b * (\<bar>a\<bar> div \<bar>b\<bar>)"

definition Swipe_steps :: "int \<Rightarrow> int" where
  "Swipe_steps durationMs = c_div durationMs 16"

datatype swipe_error = DivisionByZero

definition Swipe ::
  "My_Vector2 \<Rightarrow> My_Vector2 \<Rightarrow> int \<Rightarrow> int \<Rightarrow> touch_state \<Rightarrow> swipe_error + touch_state" where
  "Swipe start endp durationMs now st =
     (let st1 = Down (vx start) (vy start) 0 now st;
          steps = Swipe_steps durationMs
      in if steps = 0 then Inl DivisionByZero
         else
           (let delta = vec_div (vec_sub endp start) (of_int steps);
                st2 = foldl (\<lambda>s i. Move (vx (vec_add start (vec_scale delta (of_int i))))
                                       (vy (vec_add start (vec_scale delta (of_int i)))) 0 s)
                        st1 [1..steps - 1];
                st3 = Move (vx endp) (vy endp) 0 st2
            in Inr (Up 0 st3)))"

subsection \<open>Queries and the coordinate mapper\<close>

definition GetTouchCount :: "touch_state \<Rightarrow> nat" where
  "GetTouchCount st = length (filter isDown (all_fingers st))"

definition GetActiveTouches :: "touch_state \<Rightarrow> TouchPoint list" where
  "GetActiveTouches st = filter isDown (all_fingers st)"

definition IsTouching :: "touch_state \<Rightarrow> bool" where
  "IsTouching st = (GetTouchCount st > 0)"

text \<open>\<^verbatim>\<open>orientation % 4\<close> is the C++ remainder, with the sign of the dividend.\<close>

definition c_mod :: "int \<Rightarrow> int \<Rightarrow> int" where
  "c_mod a b = a - c_div a b * b"

definition SetOrientation :: "int \<Rightarrow> touch_state \<Rightarrow> touch_state" where
  "SetOrientation orientation st = st\<lparr>g_orientation := c_mod orientation 4\<rparr>"

definition TouchToScreen :: "touch_state \<Rightarrow> My_Vector2 \<Rightarrow> My_Vector2" where
  "TouchToScreen st touchCoord =
     (let xt = vx touchCoord / vx (g_touchScale st);
          yt = vy touchCoord / vy (g_touchScale st)
      in if g_orientation st = 1 then
           \<lparr>vx = yt, vy = vy (g_screenSize st) - xt\<rparr>
         else if g_orientation st = 2 then
           \<lparr>vx = vx (g_screenSize st) - xt, vy = vy (g_screenSize st) - yt\<rparr>
         else if g_orientation st = 3 then
           \<lparr>vx = vx (g_screenSize st) - yt, vy = xt\<rparr>
         else \<lparr>vx = xt, vy = yt\<rparr>)"

definition ScreenToTouch :: "touch_state \<Rightarrow> My_Vector2 \<Rightarrow> My_Vector2" where
  "ScreenToTouch st screenCoord = vec_mul screenCoord (g_touchScale st)"

subsection \<open>GestureRecognizer\<close>

text \<open>The gesture callback is handed one \<open>GestureData\<close> value.\<close>

definition deliver :: "GestureData \<Rightarrow> touch_state \<Rightarrow> touch_state" where
  "deliver gesture st = st\<lparr>delivered := delivered st @ [gesture]\<rparr>"

text \<open>
  The branch of \<open>RecognizeGesture\<close> for \<^verbatim>\<open>activeCount == 0\<close>. \<open>avgPos\<close> is the sum of
  the positions of the fingers that are down, here of none.
\<close>

definition RecognizeGesture_ended :: "int \<Rightarrow> My_Vector2 \<Rightarrow> touch_state \<Rightarrow> touch_state" where
  "RecognizeGesture_ended currentTime avgPos st =
     (let gs = g_gestureState st;
          cfg = g_gestureConfig st;
          duration = currentTime - touchStartTime gs;
          dist = vec_length (vec_sub avgPos (touchStartPos gs));
          st1 =
            (if duration < tapMaxDuration cfg \<and> dist < tapMaxDistance cfg then
               (if currentTime - lastTapTime gs < doubleTapMaxInterval cfg
                   \<and> vec_length (vec_sub avgPos (lastTapPos gs)) < tapMaxDistance cfg
                then
                  (deliver (GestureData_init
                     \<lparr>gesture_type := GestureType_DoubleTap, position := avgPos\<rparr>) st)
                  \<lparr>g_gestureState := gs\<lparr>tapCount := 0\<rparr>\<rparr>
                else
                  (deliver (GestureData_init
                     \<lparr>gesture_type := GestureType_Tap, position := avgPos\<rparr>) st)
                  \<lparr>g_gestureState := gs\<lparr>lastTapTime := currentTime, lastTapPos := avgPos\<rparr>\<rparr>)
             else if dist > swipeMinDistance cfg then
               deliver (GestureData_init
                 \<lparr>gesture_type := GestureType_Swipe, position := touchStartPos gs,
                  direction := vec_div (vec_sub avgPos (touchStartPos gs)) dist,
                  distance := dist\<rparr>) st
             else st)
      in st1\<lparr>g_gestureState := (g_gestureState st1)\<lparr>isLongPressing := False\<rparr>\<rparr>)"

text \<open>
  The branch for one or more active fingers: the long-press test, then the pinch test
  on the first two fingers that are down when exactly two are. The one \<open>gesture\<close>
  object is reused, so a pinch keeps the finger count set at the top.
\<close>

definition RecognizeGesture_active ::
  "int \<Rightarrow> TouchPoint list \<Rightarrow> My_Vector2 \<Rightarrow> touch_state \<Rightarrow> touch_state" where
  "RecognizeGesture_active currentTime active avgSum st =
     (let gs = g_gestureState st;
          cfg = g_gestureConfig st;
          activeCount = length active;
          avgPos = vec_div avgSum (real activeCount);
          gesture = GestureData_init\<lparr>fingerCount := int activeCount\<rparr>;
          st1 =
            (if \<not> isLongPressing gs then
               (let duration = currentTime - touchStartTime gs;
                    dist = vec_length (vec_sub avgPos (touchStartPos gs))
                in if duration > longPressMinDuration cfg \<and> dist < tapMaxDistance cfg then
                     (deliver (gesture
                        \<lparr>gesture_type := GestureType_LongPress, position := avgPos\<rparr>) st)
                     \<lparr>g_gestureState := gs\<lparr>isLongPressing := True\<rparr>\<rparr>
                   else st)
             else st)
      in if activeCount = 2 then
           (let t1 = active ! 0;
                t2 = active ! 1;
                currentDist = vec_length (vec_sub (pos t1) (pos t2));
                startDist = vec_length (vec_sub (startPos t1) (startPos t2));
                distChange = \<bar>currentDist - startDist\<bar>
            in if distChange > pinchMinDistance cfg then
                 deliver (gesture
                   \<lparr>gesture_type := GestureType_Pinch,
                    position := vec_div (vec_add (pos t1) (pos t2)) 2,
                    scale := currentDist / startDist\<rparr>) st1
               else st1)
         else st1)"

definition RecognizeGesture :: "int \<Rightarrow> TouchDevice \<Rightarrow> touch_state \<Rightarrow> touch_state" where
  "RecognizeGesture currentTime device st =
     (if g_gestureEnabled st \<and> g_gestureCallback st then
        (let active = filter isDown (take MAX_FINGERS (fingers device));
             avgPos = foldl vec_add vec0 (map pos active)
         in if length active = 0 then RecognizeGesture_ended currentTime avgPos st
            else RecognizeGesture_active currentTime active avgPos st)
      else st)"

subsection \<open>IngestionEngine: one decoded event of TouchReadThread\<close>

text \<open>
  The velocity pass at a report boundary, for one slot:
  \<^verbatim>\<open>if (finger.isDown) { dt = now - timestamp; if (dt > 0) velocity = pos - startPos; }\<close>
\<close>

definition update_velocity :: "int \<Rightarrow> TouchPoint \<Rightarrow> TouchPoint" where
  "update_velocity now finger =
     (if isDown finger \<and> now - timestamp finger > 0
      then finger\<lparr>velocity := vec_sub (pos finger) (startPos finger)\<rparr>
      else finger)"

text \<open>
  What the reader does at \<^verbatim>\<open>EV_SYN / SYN_REPORT\<close>: velocities, the recogniser, then
  the delivery, skipped when the last one was less than 4 ms ago.
\<close>

definition MIN_CALLBACK_INTERVAL :: int where [simp]: "MIN_CALLBACK_INTERVAL = 4"

definition report_boundary :: "nat \<Rightarrow> int \<Rightarrow> touch_state \<Rightarrow> touch_state" where
  "report_boundary deviceIndex now st =
     (let st1 = st\<lparr>g_devices := (g_devices st)[deviceIndex := (g_devices st ! deviceIndex)
                   \<lparr>fingers := map (update_velocity now) (fingers (g_devices st ! deviceIndex))\<rparr>]\<rparr>;
          st2 = (if g_gestureEnabled st1
                 then RecognizeGesture now (g_devices st1 ! deviceIndex) st1 else st1)
      in if now - lastCallbackTime st2 < MIN_CALLBACK_INTERVAL then st2
         else
           (let st3 = st2\<lparr>lastCallbackTime := now\<rparr>
            in if g_touchCallback st3 then st3\<lparr>observed := observed st3 + 1\<rparr>
               else if \<not> g_readOnly st3 then Upload st3
               else st3))"

text \<open>
  One \<^verbatim>\<open>input_event\<close> of a batch read by the thread of device \<open>deviceIndex\<close>, in
  the order of the tests of the loop body. Events of other types and other axes fall
  through every test and change nothing.
\<close>

definition TouchReadThread_event :: "nat \<Rightarrow> int \<Rightarrow> input_event \<Rightarrow> touch_state \<Rightarrow> touch_state" where
  "TouchReadThread_event deviceIndex now ie st =
     (let slot = currentSlot st deviceIndex;
          device = g_devices st ! deviceIndex
      in if ie_type ie = EV_ABS \<and> ie_code ie = ABS_MT_SLOT then
           st\<lparr>currentSlot := (currentSlot st)
                (deviceIndex := (if ie_value ie < 0 \<or> ie_value ie \<ge> int MAX_FINGERS then 0
                                 else nat (ie_value ie)))\<rparr>
         else if ie_type ie = EV_ABS \<and> ie_code ie = ABS_MT_TRACKING_ID then
           (if ie_value ie = - 1 then
              update_finger deviceIndex slot (\<lambda>finger. finger\<lparr>isDown := False\<rparr>) st
            else
              update_finger deviceIndex slot
                (\<lambda>finger. finger
                   \<lparr>touch_id := (int deviceIndex * 2 + 1) * int MAX_FINGERS + int slot,
                    isDown := True,
                    startPos := pos finger,
                    timestamp := now\<rparr>) st)
         else if ie_type ie = EV_ABS \<and> ie_code ie = ABS_MT_POSITION_X then
           update_finger deviceIndex slot
             (\<lambda>finger. finger\<lparr>pos := (pos finger)\<lparr>vx := of_int (ie_value ie) * scaleX device\<rparr>\<rparr>) st
         else if ie_type ie = EV_ABS \<and> ie_code ie = ABS_MT_POSITION_Y then
           update_finger deviceIndex slot
             (\<lambda>finger. finger\<lparr>pos := (pos finger)\<lparr>vy := of_int (ie_value ie) * scaleY device\<rparr>\<rparr>) st
         else if ie_type ie = EV_ABS \<and> ie_code ie = ABS_MT_PRESSURE then
           update_finger deviceIndex slot
             (\<lambda>finger. finger\<lparr>pressure := of_int (ie_value ie) / 255\<rparr>) st
         else if ie_type ie = EV_SYN \<and> ie_code ie = SYN_REPORT then
           report_boundary deviceIndex now st
         else st)"

text \<open>
  A run of the reader threads: the decoded events in the order the lock serialises
  them, each with its device and the clock reading at that moment.
\<close>

fun run_events :: "(nat \<times> int \<times> input_event) list \<Rightarrow> touch_state \<Rightarrow> touch_state" where
  "run_events [] st = st"
| "run_events ((deviceIndex, now, ie) # rest) st =
     run_events rest (TouchReadThread_event deviceIndex now ie st)"

subsection \<open>DeviceProbe: Init and Close\<close>

text \<open>
  \<open>Close\<close>. Releasing the grabs, closing the descriptors and clearing the event buffer
  act on the operating system and on memory no entry point reads back; the statics it
  resets are modelled.
\<close>

definition Close :: "touch_state \<Rightarrow> touch_state" where
  "Close st =
     (if g_initialized st then
        st\<lparr>g_initialized := False,
           g_outputFd := (if g_outputFd st > 0 then - 1 else g_outputFd st),
           g_devices := []\<rparr>
      else st)"

text \<open>
  What \<open>Init\<close> finds outside the program: whether \<^verbatim>\<open>/dev/input/\<close> opens, for each
  path \<^verbatim>\<open>/dev/input/event<i>\<close> it tries what \<^verbatim>\<open>open\<close>, \<open>CheckDeviceIsTouch\<close> and
  the two range queries give, the descriptor \<^verbatim>\<open>open("/dev/uinput")\<close> returns, and
  whether \<^verbatim>\<open>ioctl(UI_DEV_CREATE)\<close> reports a failure.
\<close>

datatype probe =
  OpenFails
  | NotTouch int
  | TouchWithoutRange int
  | TouchWithRange int input_absinfo input_absinfo

record init_env =
  dir_opens :: bool
  probes :: "probe list"
  uinput_fd :: int
  create_fails :: bool

fun probe_devices :: "probe list \<Rightarrow> TouchDevice list" where
  "probe_devices [] = []"
| "probe_devices (OpenFails # ps) = probe_devices ps"
| "probe_devices (NotTouch f # ps) = probe_devices ps"
| "probe_devices (TouchWithoutRange f # ps) = probe_devices ps"
| "probe_devices (TouchWithRange f ax ay # ps) =
     TouchDevice_init\<lparr>fd := f, absX := ax, absY := ay\<rparr> # probe_devices ps"

text \<open>
  The end of a successful \<open>Init\<close>: the per-device scales, \<open>g_touchScale\<close> against the
  screen size with its smaller side first, the flag, and one reader per device, each
  starting at slot 0.
\<close>

definition Init_finish :: "int \<Rightarrow> int \<Rightarrow> My_Vector2 \<Rightarrow> touch_state \<Rightarrow> touch_state" where
  "Init_finish touchWidth touchHeight screenSize st =
     (let actualSize =
            (if vx screenSize > vy screenSize
             then \<lparr>vx = vy screenSize, vy = vx screenSize\<rparr> else screenSize)
      in st\<lparr>g_devices :=
              map (\<lambda>device. device
                     \<lparr>scaleX := of_int touchWidth / of_int (maximum (absX device)),
                      scaleY := of_int touchHeight / of_int (maximum (absY device))\<rparr>)
                (g_devices st),
            g_touchScale :=
              \<lparr>vx = of_int touchWidth / vx actualSize, vy = of_int touchHeight / vy actualSize\<rparr>,
            g_initialized := True,
            currentSlot := (\<lambda>d. 0)\<rparr>)"

definition Init :: "init_env \<Rightarrow> My_Vector2 \<Rightarrow> bool \<Rightarrow> touch_state \<Rightarrow> bool \<times> touch_state" where
  "Init env screenSize readOnly st0 =
     (let st1 = (Close st0)
            \<lparr>g_devices := [],
             g_readOnly := readOnly,
             g_screenSize :=
               (if vx screenSize > vy screenSize then screenSize
                else \<lparr>vx = vy screenSize, vy = vx screenSize\<rparr>)\<rparr>
      in if \<not> dir_opens env then (False, st1)
         else
           (let st2 = st1\<lparr>g_devices := probe_devices (probes env)\<rparr>
            in if g_devices st2 = [] then (False, st2)
               else
                 (let touchWidth = maximum (absX (g_devices st2 ! 0));
                      touchHeight = maximum (absY (g_devices st2 ! 0))
                  in if \<not> readOnly then
                       (let st3 = st2\<lparr>g_outputFd := uinput_fd env\<rparr>
                        in if g_outputFd st3 \<le> 0 then (False, st3)
                           else if create_fails env then (False, st3)
                           else (True, Init_finish touchWidth touchHeight screenSize st3))
                     else (True, Init_finish touchWidth touchHeight screenSize st2))))"

subsection \<open>Setters\<close>

definition SetTouchCallback :: "bool \<Rightarrow> touch_state \<Rightarrow> touch_state" where
  "SetTouchCallback callback st = st\<lparr>g_touchCallback := callback\<rparr>"

definition SetGestureCallback :: "bool \<Rightarrow> touch_state \<Rightarrow> touch_state" where
  "SetGestureCallback callback st = st\<lparr>g_gestureCallback := callback\<rparr>"

definition SetGestureConfig :: "GestureConfig \<Rightarrow> touch_state \<Rightarrow> touch_state" where
  "SetGestureConfig config st = st\<lparr>g_gestureConfig := config\<rparr>"

definition EnableGestureRecognition :: "bool \<Rightarrow> touch_state \<Rightarrow> touch_state" where
  "EnableGestureRecognition enable st = st\<lparr>g_gestureEnabled := enable\<rparr>"

subsection \<open>Runs of the readers and of the synthetic entry points\<close>

text \<open>
  One step on the shared state: a reader decodes an event, or the application calls
  \<open>Down\<close>, \<open>Move\<close> or \<open>Up\<close>. The lock serialises the steps, so a run is a list of
  them.
\<close>

datatype action =
  Decoded nat int input_event
  | CallDown real real int int
  | CallMove real real int
  | CallUp int

fun run_action :: "action \<Rightarrow> touch_state \<Rightarrow> touch_state" where
  "run_action (Decoded deviceIndex now ie) st = TouchReadThread_event deviceIndex now ie st"
| "run_action (CallDown x y touchId now) st = Down x y touchId now st"
| "run_action (CallMove x y touchId) st = Move x y touchId st"
| "run_action (CallUp touchId) st = Up touchId st"

fun run_actions :: "action list \<Rightarrow> touch_state \<Rightarrow> touch_state" where
  "run_actions [] st = st"
| "run_actions (a # rest) st = run_actions rest (run_action a st)"


subsection \<open>Notions used in the statements\<close>

text \<open>
  The slot \<open>s\<close> of device \<open>d\<close>, the number of slots of each device, and a property
  that holds of every slot of every device.
\<close>

definition slot_of :: "touch_state \<Rightarrow> nat \<Rightarrow> nat \<Rightarrow> TouchPoint" where
  "slot_of st d s = fingers (g_devices st ! d) ! s"

definition finger_counts :: "touch_state \<Rightarrow> nat list" where
  "finger_counts st = map (\<lambda>device. length (fingers device)) (g_devices st)"

definition all_slots :: "(nat \<Rightarrow> nat \<Rightarrow> TouchPoint \<Rightarrow> bool) \<Rightarrow> touch_state \<Rightarrow> bool" where
  "all_slots P st =
     (\<forall>d < length (g_devices st). \<forall>s < length (fingers (g_devices st ! d)). P d s (slot_of st d s))"

text \<open>
  Every device has the ten slots of \<^verbatim>\<open>TouchPoint fingers[10]\<close>, and the
  \<^verbatim>\<open>currentSlot\<close> of every reader indexes into them.
\<close>

definition ten_slots_each :: "touch_state \<Rightarrow> bool" where
  "ten_slots_each st = (finger_counts st = replicate (length (g_devices st)) MAX_FINGERS)"

definition slots_in_range :: "touch_state \<Rightarrow> bool" where
  "slots_in_range st = (\<forall>d. currentSlot st d < MAX_FINGERS)"

text \<open>
  A registry as \<open>Init\<close> builds it: every slot of every device is a default
  \<open>TouchPoint\<close>.
\<close>

definition fresh_registry :: "touch_state \<Rightarrow> bool" where
  "fresh_registry st =
     (list_all (\<lambda>device. fingers device = replicate MAX_FINGERS TouchPoint_init) (g_devices st))"

text \<open>
  The identity the reader gives the contact in slot \<open>slotIndex\<close> of device
  \<open>deviceIndex\<close>, and the invariant that a slot that is down carries it.
\<close>

definition hardware_identity :: "nat \<Rightarrow> nat \<Rightarrow> int" where
  "hardware_identity deviceIndex slotIndex = (int deviceIndex * 2 + 1) * 10 + int slotIndex"

definition identity_assigned :: "nat \<Rightarrow> nat \<Rightarrow> TouchPoint \<Rightarrow> bool" where
  "identity_assigned d s finger = (isDown finger \<longrightarrow> touch_id finger = hardware_identity d s)"


text \<open>
  A stored pressure within \<open>[0, 1]\<close>, and a decoded event that, if it is a pressure
  event, carries a raw value within \<open>0..255\<close>.
\<close>

definition pressure_normalised :: "nat \<Rightarrow> nat \<Rightarrow> TouchPoint \<Rightarrow> bool" where
  "pressure_normalised d s finger = (0 \<le> pressure finger \<and> pressure finger \<le> 1)"

definition raw_pressure_in_range :: "input_event \<Rightarrow> bool" where
  "raw_pressure_in_range ie =
     (ie_type ie = EV_ABS \<and> ie_code ie = ABS_MT_PRESSURE \<longrightarrow> 0 \<le> ie_value ie \<and> ie_value ie \<le> 255)"

text \<open>
  Events in a buffer of \<open>Upload\<close>: a tracking-id event (one per finger group), a
  finger-position event, the number of finger groups, and a buffer that ends in given
  events.
\<close>

definition is_tracking :: "input_event \<Rightarrow> bool" where
  "is_tracking e = (ie_type e = EV_ABS \<and> ie_code e = ABS_MT_TRACKING_ID)"

definition is_position :: "input_event \<Rightarrow> bool" where
  "is_position e =
     (ie_type e = EV_ABS \<and>
      (ie_code e = ABS_X \<or> ie_code e = ABS_Y \<or>
       ie_code e = ABS_MT_POSITION_X \<or> ie_code e = ABS_MT_POSITION_Y))"

definition finger_groups :: "input_event list \<Rightarrow> nat" where
  "finger_groups buf = length (filter is_tracking buf)"

definition ends_with :: "'a list \<Rightarrow> 'a list \<Rightarrow> bool" where
  "ends_with sfx buf = (length sfx \<le> length buf \<and> drop (length buf - length sfx) buf = sfx)"

subsection \<open>Concrete runs\<close>

text \<open>
  A phone with one touch screen, \<^verbatim>\<open>/dev/input/event1\<close>, whose axes run to 1080 and
  2400, initialised for a 1080 by 2400 screen; \<^verbatim>\<open>/dev/uinput\<close> opens as descriptor
  7 and the virtual device is created.
\<close>

definition example_env :: init_env where
  "example_env =
     \<lparr>dir_opens = True,
      probes = [OpenFails,
                TouchWithRange 3 \<lparr>minimum = 0, maximum = 1080\<rparr> \<lparr>minimum = 0, maximum = 2400\<rparr>],
      uinput_fd = 7, create_fails = False\<rparr>"

definition example_screen :: My_Vector2 where
  "example_screen = \<lparr>vx = 1080, vy = 2400\<rparr>"

definition example_state :: "bool \<Rightarrow> touch_state" where
  "example_state readOnly = snd (Init example_env example_screen readOnly state_init)"

text \<open>
  The state in which \<open>Up\<close> calls \<open>Upload\<close> after a synthetic \<open>Down\<close> at (100, 200):
  slot 9 of device 0 has just been lifted.
\<close>

definition lifted_state :: touch_state where
  "lifted_state =
     update_finger 0 9 (\<lambda>touch. touch\<lparr>isDown := False\<rparr>)
       (Down 100 200 0 1000 (example_state False))"

text \<open>
  Three touch devices with all ten slots of each down.
\<close>

definition three_devices_env :: init_env where
  "three_devices_env =
     \<lparr>dir_opens = True,
      probes = [TouchWithRange 3 \<lparr>minimum = 0, maximum = 1080\<rparr> \<lparr>minimum = 0, maximum = 2400\<rparr>,
                TouchWithRange 4 \<lparr>minimum = 0, maximum = 1080\<rparr> \<lparr>minimum = 0, maximum = 2400\<rparr>,
                TouchWithRange 5 \<lparr>minimum = 0, maximum = 1080\<rparr> \<lparr>minimum = 0, maximum = 2400\<rparr>],
      uinput_fd = 7, create_fails = False\<rparr>"

definition crowded_state :: touch_state where
  "crowded_state =
     (let st = snd (Init three_devices_env example_screen False state_init)
      in st\<lparr>g_devices :=
              map (\<lambda>device. device\<lparr>fingers := map (\<lambda>finger. finger\<lparr>isDown := True\<rparr>) (fingers device)\<rparr>)
                (g_devices st)\<rparr>)"

text \<open>
  Recognition enabled with a callback registered, read-only; then one hardware contact
  that arrives at (100, 200) and is reported, and its lift 50 ms later. The clock
  readings are milliseconds since the epoch, as \<^verbatim>\<open>gettimeofday\<close> gives them.
\<close>

definition tap_ready :: touch_state where
  "tap_ready = EnableGestureRecognition True (SetGestureCallback True (example_state True))"

definition tap_down :: "(nat \<times> int \<times> input_event) list" where
  "tap_down =
     [(0, 1700000000000, event EV_ABS ABS_MT_TRACKING_ID 42),
      (0, 1700000000000, event EV_ABS ABS_MT_POSITION_X 100),
      (0, 1700000000000, event EV_ABS ABS_MT_POSITION_Y 200),
      (0, 1700000000000, event EV_SYN SYN_REPORT 0)]"

definition tap_up :: "(nat \<times> int \<times> input_event) list" where
  "tap_up =
     [(0, 1700000000050, event EV_ABS ABS_MT_TRACKING_ID (- 1)),
      (0, 1700000000050, event EV_SYN SYN_REPORT 0)]"




text \<open>
  The environment of \<open>example_env\<close> where \<^verbatim>\<open>open("/dev/uinput")\<close> fails.
\<close>

definition uinput_fails_env :: init_env where
  "uinput_fails_env = example_env\<lparr>uinput_fd := - 1\<rparr>"

text \<open>
  The example phone after \<^verbatim>\<open>SetOrientation(2)\<close>.
\<close>

definition rotated_state :: touch_state where
  "rotated_state = SetOrientation 2 (example_state True)"

section \<open>Properties\<close>

subsection \<open>Evaluating the concrete runs\<close>

lemma numeral_replicate: "replicate (numeral k) x = x # replicate (pred_numeral k) x"
  by (simp add: numeral_eq_Suc)

lemmas model_defs = numeral_replicate Init_def Init_finish_def Close_def state_init_def TouchDevice_init_def
  TouchPoint_init_def vec0_def example_env_def example_screen_def example_state_def Let_def
  update_finger_def event_def

lemmas event_defs = TouchReadThread_event_def report_boundary_def update_velocity_def
  RecognizeGesture_def RecognizeGesture_ended_def RecognizeGesture_active_def deliver_def
  vec_add_def vec_sub_def vec_div_def vec_length_def GestureConfig_init_def
  GestureState_init_def GestureData_init_def

lemma sqrt_less_iff: "0 \<le> y \<Longrightarrow> (sqrt x < y) = (x < y * y)"
proof -
  assume "0 \<le> y"
  then have "sqrt (y * y) = y" by simp
  then have "(sqrt x < y) = (sqrt x < sqrt (y * y))" by simp
  then show ?thesis by (simp only: real_sqrt_less_iff)
qed

lemma example_state_value:
  "example_state True =
     \<lparr>g_touchScale = \<lparr>vx = 1, vy = 1\<rparr>, g_screenSize = \<lparr>vx = 2400, vy = 1080\<rparr>,
      g_devices =
        [\<lparr>fd = 3, scaleX = 1, scaleY = 1, absX = \<lparr>minimum = 0, maximum = 1080\<rparr>,
          absY = \<lparr>minimum = 0, maximum = 2400\<rparr>, fingers = replicate 10 TouchPoint_init\<rparr>],
      g_outputFd = - 1, g_orientation = 0, g_initialized = True, g_readOnly = True,
      g_gestureEnabled = False, g_touchCallback = False, g_gestureCallback = False,
      g_gestureConfig = GestureConfig_init, g_gestureState = GestureState_init,
      isFirstDown = True, lastCallbackTime = 0, currentSlot = (\<lambda>d. 0),
      delivered = [], observed = 0, writes = []\<rparr>"
  by (simp add: Init_def Init_finish_def Close_def state_init_def TouchDevice_init_def example_env_def
        example_screen_def example_state_def Let_def)


lemma tap_ready_value:
  "tap_ready =
     \<lparr>g_touchScale = \<lparr>vx = 1, vy = 1\<rparr>, g_screenSize = \<lparr>vx = 2400, vy = 1080\<rparr>,
      g_devices =
        [\<lparr>fd = 3, scaleX = 1, scaleY = 1, absX = \<lparr>minimum = 0, maximum = 1080\<rparr>,
          absY = \<lparr>minimum = 0, maximum = 2400\<rparr>, fingers = replicate 10 TouchPoint_init\<rparr>],
      g_outputFd = - 1, g_orientation = 0, g_initialized = True, g_readOnly = True,
      g_gestureEnabled = True, g_touchCallback = False, g_gestureCallback = True,
      g_gestureConfig = GestureConfig_init, g_gestureState = GestureState_init,
      isFirstDown = True, lastCallbackTime = 0, currentSlot = (\<lambda>d. 0),
      delivered = [], observed = 0, writes = []\<rparr>"
  by (simp add: tap_ready_def EnableGestureRecognition_def SetGestureCallback_def
        Init_def Init_finish_def Close_def state_init_def TouchDevice_init_def example_env_def
        example_screen_def example_state_def Let_def)

lemma example_state_length: "length (g_devices (example_state readOnly)) = 1"
  by (cases readOnly) (simp_all add: model_defs)

lemma example_state_scale:
  "g_touchScale (example_state readOnly) = \<lparr>vx = 1, vy = 1\<rparr> \<and>
   g_screenSize (example_state readOnly) = \<lparr>vx = 2400, vy = 1080\<rparr>"
  by (cases readOnly) (simp_all add: model_defs)

subsection \<open>The divisor of Swipe\<close>

lemma c_div_pos: "0 \<le> a \<Longrightarrow> 0 < b \<Longrightarrow> c_div a b = a div b"
  by (cases "a = 0") (simp_all add: c_div_def)

text \<open>
  Without the precondition the divisor can be zero: truncation sends every duration
  strictly between \<open>-16\<close> and \<open>16\<close> to zero steps.
\<close>

lemma Swipe_steps_zero_iff: "Swipe_steps d = 0 \<longleftrightarrow> - 16 < d \<and> d < 16"
  unfolding Swipe_steps_def c_div_def
  by (auto simp: sgn_if zdiv_eq_0_iff)

lemma Swipe_short_duration:
  "Swipe_steps 15 = 0 \<and> Swipe start endp 15 now st = Inl DivisionByZero"
  by (simp add: Swipe_steps_def c_div_def Swipe_def)

text \<open>
  Claim C10. In \<open>Swipe\<close> the step count is the integer quotient \<open>durationMs / 16\<close> and
  divides the displacement without a test. For \<open>durationMs \<ge> 16\<close> it is at least one,
  so the divisor is not zero and \<open>Swipe\<close> runs to its end.
\<close>

theorem Swipe_divisor_nonzero:
  "16 \<le> durationMs \<Longrightarrow>
     Swipe_steps durationMs = durationMs div 16 \<and> 1 \<le> Swipe_steps durationMs \<and>
     (\<exists>st'. Swipe start endp durationMs now st = Inr st')"
proof -
  assume h: "16 \<le> durationMs"
  then have e: "Swipe_steps durationMs = durationMs div 16"
    by (simp add: Swipe_steps_def c_div_pos)
  from h have "1 \<le> durationMs div 16" by presburger
  with e have p: "1 \<le> Swipe_steps durationMs" by simp
  then have "\<exists>st'. Swipe start endp durationMs now st = Inr st'"
    by (simp add: Swipe_def Let_def)
  with e p show ?thesis by simp
qed

theorem Swipe_divisor_nonzero_witness:
  "(16 :: int) \<le> 300 \<and> Swipe_steps 300 = 18 \<and>
   (\<exists>st'. Swipe vec0 \<lparr>vx = 100, vy = 0\<rparr> 300 0 state_init = Inr st')"
  using Swipe_divisor_nonzero [of 300 vec0 "\<lparr>vx = 100, vy = 0\<rparr>" 0 state_init] by simp

subsection \<open>Upload\<close>

lemma finger_groups_Nil [simp]: "finger_groups [] = 0"
  by (simp add: finger_groups_def)

lemma finger_groups_append [simp]: "finger_groups (a @ b) = finger_groups a + finger_groups b"
  by (simp add: finger_groups_def)

lemma finger_groups_finger_events [simp]: "finger_groups (finger_events f) = 1"
  by (simp add: finger_groups_def finger_events_def is_tracking_def event_def)

lemma Upload_fingers_groups:
  "finger_groups (Upload_fingers fs n evs) =
     finger_groups evs + min (length (filter isDown fs)) (21 - n)"
  by (induction fs arbitrary: n evs) auto

lemma Upload_fingers_none_down:
  "filter isDown fs = [] \<Longrightarrow> Upload_fingers fs n evs = evs"
  by (induction fs arbitrary: n evs) (auto split: if_splits)

lemma Upload_fingers_empty_iff:
  "Upload_fingers fs 0 [] = [] \<longleftrightarrow> filter isDown fs = []"
proof
  assume "Upload_fingers fs 0 [] = []"
  then have "finger_groups (Upload_fingers fs 0 []) = 0" by (simp add: finger_groups_def)
  then have "min (length (filter isDown fs)) 21 = 0"
    by (simp add: Upload_fingers_groups)
  then show "filter isDown fs = []" by (simp add: min_def split: if_splits)
next
  assume "filter isDown fs = []" then show "Upload_fingers fs 0 [] = []"
    by (simp add: Upload_fingers_none_down)
qed

lemma Upload_empty_iff: "Upload_fingers (all_fingers st) 0 [] = [] \<longleftrightarrow> GetTouchCount st = 0"
  by (simp add: Upload_fingers_empty_iff GetTouchCount_def)

text \<open>
  After a call of \<open>Upload\<close> the flag \<open>isFirstDown\<close> says whether that call found no finger
  down. Nothing else writes the flag, so at a call with no finger down it is false
  exactly when the call before it found one.
\<close>

lemma Upload_isFirstDown: "isFirstDown (Upload st) = (GetTouchCount st = 0)"
  by (auto simp: Upload_def Let_def Upload_empty_iff)

lemma Upload_buffer_empty_state:
  "GetTouchCount st = 0 \<Longrightarrow>
   Upload_buffer st =
     event EV_SYN SYN_MT_REPORT 0 #
     (if isFirstDown st then [] else [event EV_KEY BTN_TOUCH 0, event EV_KEY BTN_TOOL_FINGER 0]) @
     [event EV_SYN SYN_REPORT 0]"
  by (simp add: Upload_buffer_def Upload_def Let_def Upload_empty_iff)

text \<open>
  The number of finger groups in a buffer: one per finger that is down, up to 21. The
  test \<^verbatim>\<open>fingerCount++ > 20\<close> compares the count before the increment, so it first
  holds at the 22nd finger.
\<close>

lemma Upload_buffer_groups:
  "finger_groups (Upload_buffer st) = min (GetTouchCount st) 21"
proof (cases "GetTouchCount st = 0")
  case True
  then show ?thesis
    by (simp add: Upload_buffer_empty_state finger_groups_def is_tracking_def event_def)
next
  case False
  then have ne: "Upload_fingers (all_fingers st) 0 [] \<noteq> []" by (simp add: Upload_empty_iff)
  have g: "finger_groups (Upload_fingers (all_fingers st) 0 []) = min (GetTouchCount st) 21"
    by (simp add: Upload_fingers_groups GetTouchCount_def)
  have d: "finger_groups downEvent = 0" "finger_groups [event EV_SYN SYN_REPORT 0] = 0"
    by (simp_all add: finger_groups_def downEvent_def is_tracking_def event_def)
  show ?thesis using ne g d
    by (simp add: Upload_buffer_def Upload_def Let_def)
qed

lemma Upload_devices [simp]: "g_devices (Upload st) = g_devices st"
  by (simp add: Upload_def Let_def)

lemma update_finger_length [simp]:
  "length (g_devices (update_finger d s f st)) = length (g_devices st)"
  by (simp add: update_finger_def)

lemma Down_length [simp]: "length (g_devices (Down x y touchId now st)) = length (g_devices st)"
  by (simp add: Down_def)

lemma Up_unfold:
  "g_devices st \<noteq> [] \<Longrightarrow>
   Up touchId st = Upload (update_finger 0 9 (\<lambda>touch. touch\<lparr>isDown := False\<rparr>) st)"
  by (simp add: Up_def)

lemma lifted_is_Up: "Up 0 (Down 100 200 0 1000 (example_state False)) = Upload lifted_state"
proof -
  have "length (g_devices (Down 100 200 0 1000 (example_state False))) = 1"
    by (simp add: example_state_length)
  then have "g_devices (Down 100 200 0 1000 (example_state False)) \<noteq> []"
    by (metis length_0_conv zero_neq_one)
  then show ?thesis by (simp add: Up_unfold lifted_state_def)
qed

lemma lifted_count: "GetTouchCount lifted_state = 0"
  by (simp add: GetTouchCount_def all_fingers_def lifted_state_def Down_def Upload_def model_defs)

lemma lifted_flag: "\<not> isFirstDown lifted_state"
  by (simp add: lifted_state_def Down_def Upload_def all_fingers_def finger_events_def model_defs)

text \<open>
  Claim C6, as amended. At a call of \<open>Upload\<close> with no finger down the buffer is the
  report separator, then the two key-up events if the previous call found a finger down
  (\<open>isFirstDown\<close> is false), then the final synchronisation event. It holds no
  finger-position event. Only without the key-up events does it end in the separator
  followed by the synchronisation event.
\<close>

theorem Upload_zero_finger_buffer:
  "GetTouchCount st = 0 \<Longrightarrow>
     Upload_buffer st =
       event EV_SYN SYN_MT_REPORT 0 #
       (if isFirstDown st then []
        else [event EV_KEY BTN_TOUCH 0, event EV_KEY BTN_TOOL_FINGER 0]) @
       [event EV_SYN SYN_REPORT 0] \<and>
     filter is_position (Upload_buffer st) = [] \<and>
     (isFirstDown st \<longrightarrow>
        ends_with [event EV_SYN SYN_MT_REPORT 0, event EV_SYN SYN_REPORT 0] (Upload_buffer st)) \<and>
     (\<forall>prev. isFirstDown st = isFirstDown (Upload prev) \<longrightarrow>
        isFirstDown st = (GetTouchCount prev = 0))"
  by (simp add: Upload_buffer_empty_state Upload_isFirstDown is_position_def event_def ends_with_def)

theorem Upload_zero_finger_buffer_witness:
  "GetTouchCount lifted_state = 0 \<and>
   Upload_buffer lifted_state =
     [event EV_SYN SYN_MT_REPORT 0, event EV_KEY BTN_TOUCH 0, event EV_KEY BTN_TOOL_FINGER 0,
      event EV_SYN SYN_REPORT 0] \<and>
   GetTouchCount (example_state False) = 0 \<and>
   Upload_buffer (example_state False) = [event EV_SYN SYN_MT_REPORT 0, event EV_SYN SYN_REPORT 0]"
proof -
  have a: "GetTouchCount lifted_state = 0" by (rule lifted_count)
  have b: "GetTouchCount (example_state False) = 0"
    by (simp add: GetTouchCount_def all_fingers_def model_defs)
  have c: "isFirstDown (example_state False)" by (simp add: model_defs)
  from Upload_zero_finger_buffer [OF a] Upload_zero_finger_buffer [OF b] a b c lifted_flag
  show ?thesis by simp
qed

text \<open>
  Claim C6, as stated, fails at the first call with no finger down after a call with
  one: after \<open>Down\<close> and at the \<open>Upload\<close> of \<open>Up\<close> the key-up events stand between the
  separator and the synchronisation event, so the buffer ends in a key-up event and the
  synchronisation event.
\<close>

theorem Upload_zero_finger_counterexample:
  "GetTouchCount lifted_state = 0 \<and>
   Upload_buffer lifted_state =
     [event EV_SYN SYN_MT_REPORT 0, event EV_KEY BTN_TOUCH 0, event EV_KEY BTN_TOOL_FINGER 0,
      event EV_SYN SYN_REPORT 0] \<and>
   \<not> ends_with [event EV_SYN SYN_MT_REPORT 0, event EV_SYN SYN_REPORT 0] (Upload_buffer lifted_state)"
  by (simp add: lifted_count lifted_flag Upload_buffer_empty_state ends_with_def event_def)

text \<open>
  Claim C7 at three devices with ten fingers down each: \<open>Upload\<close> writes 21 finger
  groups, one more than the 20 the claim allows.
\<close>

theorem Upload_cap_crowded:
  "GetTouchCount crowded_state = 30 \<and> finger_groups (Upload_buffer crowded_state) = 21"
proof -
  have "GetTouchCount crowded_state = 30"
    by (simp add: GetTouchCount_def all_fingers_def crowded_state_def three_devices_env_def model_defs)
  then show ?thesis by (simp add: Upload_buffer_groups)
qed

subsection \<open>Slots under the decoded events\<close>

lemma finger_counts_update_finger [simp]:
  "finger_counts (update_finger d s f st) = finger_counts st"
  by (cases "d < length (g_devices st)")
     (simp_all add: finger_counts_def update_finger_def map_update list_update_same_conv
        list_update_beyond)

lemma finger_counts_length: "finger_counts st' = finger_counts st \<Longrightarrow>
    length (g_devices st') = length (g_devices st)"
  by (metis finger_counts_def length_map)

lemma finger_counts_nth: "finger_counts st' = finger_counts st \<Longrightarrow> d < length (g_devices st) \<Longrightarrow>
    length (fingers (g_devices st' ! d)) = length (fingers (g_devices st ! d))"
  by (metis finger_counts_def finger_counts_length nth_map)

lemma slot_of_update_finger:
  "d < length (g_devices st) \<Longrightarrow> s < length (fingers (g_devices st ! d)) \<Longrightarrow>
   slot_of (update_finger d s f st) d' s' =
     (if d' = d \<and> s' = s then f (slot_of st d s) else slot_of st d' s')"
  by (auto simp: slot_of_def update_finger_def nth_list_update)

lemma update_finger_out_of_range:
  "\<not> (d < length (g_devices st) \<and> s < length (fingers (g_devices st ! d))) \<Longrightarrow>
   g_devices (update_finger d s f st) = g_devices st"
  by (cases "d < length (g_devices st)")
     (simp_all add: update_finger_def list_update_same_conv list_update_beyond)

lemma all_slots_cong:
  "g_devices st' = g_devices st \<Longrightarrow> all_slots P st' = all_slots P st"
  by (simp add: all_slots_def slot_of_def)

lemma all_slots_update_finger:
  assumes "all_slots P st"
    and "\<And>t. P d s t \<Longrightarrow> P d s (f t)"
  shows "all_slots P (update_finger d s f st)"
proof (cases "d < length (g_devices st) \<and> s < length (fingers (g_devices st ! d))")
  case True
  have c: "finger_counts (update_finger d s f st) = finger_counts st" by simp
  show ?thesis
    unfolding all_slots_def
  proof (intro allI impI)
    fix d' s'
    assume a: "d' < length (g_devices (update_finger d s f st))"
      and b: "s' < length (fingers (g_devices (update_finger d s f st) ! d'))"
    from a have a': "d' < length (g_devices st)" by simp
    with b finger_counts_nth [OF c a'] have b': "s' < length (fingers (g_devices st ! d'))"
      by simp
    from assms(1) a' b' have p: "P d' s' (slot_of st d' s')" by (simp add: all_slots_def)
    show "P d' s' (slot_of (update_finger d s f st) d' s')"
    proof (cases "d' = d \<and> s' = s")
      case True
      with p have "P d s (f (slot_of st d s))" by (simp add: assms(2))
      with True \<open>d < length (g_devices st) \<and> s < length (fingers (g_devices st ! d))\<close>
      show ?thesis by (simp add: slot_of_update_finger)
    next
      case False
      from \<open>d < length (g_devices st) \<and> s < length (fingers (g_devices st ! d))\<close>
      have "slot_of (update_finger d s f st) d' s' =
              (if d' = d \<and> s' = s then f (slot_of st d s) else slot_of st d' s')"
        by (simp add: slot_of_update_finger)
      then have "slot_of (update_finger d s f st) d' s' = slot_of st d' s'"
        by (simp only: if_not_P [OF False])
      with p show ?thesis by simp
    qed
  qed
next
  case False
  then have "g_devices (update_finger d s f st) = g_devices st"
    by (rule update_finger_out_of_range)
  from all_slots_cong [OF this] assms(1) show ?thesis by simp
qed

lemma deliver_devices [simp]: "g_devices (deliver g st) = g_devices st"
  by (simp add: deliver_def)

lemma RecognizeGesture_ended_devices [simp]:
  "g_devices (RecognizeGesture_ended now avgPos st) = g_devices st"
  by (simp add: RecognizeGesture_ended_def Let_def)

lemma RecognizeGesture_active_devices [simp]:
  "g_devices (RecognizeGesture_active now active avgPos st) = g_devices st"
  by (simp add: RecognizeGesture_active_def Let_def)

lemma RecognizeGesture_devices [simp]:
  "g_devices (RecognizeGesture now device st) = g_devices st"
  by (simp add: RecognizeGesture_def Let_def)

lemma deliver_currentSlot [simp]: "currentSlot (deliver g st) = currentSlot st"
  by (simp add: deliver_def)

lemma RecognizeGesture_ended_currentSlot [simp]:
  "currentSlot (RecognizeGesture_ended now avgPos st) = currentSlot st"
  by (simp add: RecognizeGesture_ended_def Let_def)

lemma RecognizeGesture_active_currentSlot [simp]:
  "currentSlot (RecognizeGesture_active now active avgPos st) = currentSlot st"
  by (simp add: RecognizeGesture_active_def Let_def)

lemma RecognizeGesture_currentSlot [simp]:
  "currentSlot (RecognizeGesture now device st) = currentSlot st"
  by (simp add: RecognizeGesture_def Let_def)

lemma Upload_currentSlot [simp]: "currentSlot (Upload st) = currentSlot st"
  by (simp add: Upload_def Let_def)

lemma report_boundary_devices:
  "g_devices (report_boundary d now st) =
     (g_devices st)[d := (g_devices st ! d)
        \<lparr>fingers := map (update_velocity now) (fingers (g_devices st ! d))\<rparr>]"
  by (simp add: report_boundary_def Let_def)

lemma report_boundary_currentSlot [simp]:
  "currentSlot (report_boundary d now st) = currentSlot st"
  by (simp add: report_boundary_def Let_def)

lemma finger_counts_report_boundary [simp]:
  "finger_counts (report_boundary d now st) = finger_counts st"
  by (cases "d < length (g_devices st)")
     (simp_all add: finger_counts_def report_boundary_devices map_update list_update_same_conv
        list_update_beyond)

lemma slot_of_report_boundary:
  "d' < length (g_devices st) \<Longrightarrow> s' < length (fingers (g_devices st ! d')) \<Longrightarrow>
   slot_of (report_boundary d now st) d' s' =
     (if d' = d then update_velocity now (slot_of st d' s') else slot_of st d' s')"
  by (auto simp: slot_of_def report_boundary_devices nth_list_update)

lemma all_slots_report_boundary:
  assumes "all_slots P st"
    and "\<And>s t. P d s t \<Longrightarrow> P d s (update_velocity now t)"
  shows "all_slots P (report_boundary d now st)"
  unfolding all_slots_def
proof (intro allI impI)
  fix d' s'
  assume a: "d' < length (g_devices (report_boundary d now st))"
    and b: "s' < length (fingers (g_devices (report_boundary d now st) ! d'))"
  have c: "finger_counts (report_boundary d now st) = finger_counts st" by simp
  from a finger_counts_length [OF c] have a': "d' < length (g_devices st)" by simp
  with b finger_counts_nth [OF c a'] have b': "s' < length (fingers (g_devices st ! d'))"
    by simp
  from assms(1) a' b' have p: "P d' s' (slot_of st d' s')" by (simp add: all_slots_def)
  show "P d' s' (slot_of (report_boundary d now st) d' s')"
  proof (cases "d' = d")
    case True
    with p have "P d s' (update_velocity now (slot_of st d s'))" by (simp add: assms(2))
    with True a' b' show ?thesis by (simp add: slot_of_report_boundary)
  next
    case False
    with p a' b' show ?thesis by (simp add: slot_of_report_boundary)
  qed
qed

lemma update_finger_currentSlot [simp]: "currentSlot (update_finger d s f st) = currentSlot st"
  by (simp add: update_finger_def)

text \<open>
  What one decoded event does, by the test of the loop body it meets first.
\<close>

lemma TouchReadThread_event_ignored:
  assumes "ie_type ie = EV_ABS \<longrightarrow> ie_code ie \<noteq> ABS_MT_SLOT \<and> ie_code ie \<noteq> ABS_MT_TRACKING_ID \<and>
             ie_code ie \<noteq> ABS_MT_POSITION_X \<and> ie_code ie \<noteq> ABS_MT_POSITION_Y \<and>
             ie_code ie \<noteq> ABS_MT_PRESSURE"
    and "\<not> (ie_type ie = EV_SYN \<and> ie_code ie = SYN_REPORT)"
  shows "TouchReadThread_event d now ie st = st"
proof -
  from assms(2) have nsyn: "(ie_type ie = 0 \<and> ie_code ie = 0) = False" by simp
  show ?thesis
  proof (cases "ie_type ie = EV_ABS")
    case True
    with assms(1) show ?thesis by (simp add: TouchReadThread_event_def Let_def)
  next
    case False
    then show ?thesis by (simp add: TouchReadThread_event_def Let_def nsyn)
  qed
qed

lemma TouchReadThread_event_cases:
  obtains
    (select) c where "TouchReadThread_event d now ie st = st\<lparr>currentSlot := (currentSlot st)(d := c)\<rparr>"
      "c < MAX_FINGERS"
  | (lift) "ie_type ie = EV_ABS" "ie_code ie = ABS_MT_TRACKING_ID" "ie_value ie = - 1"
      "TouchReadThread_event d now ie st =
         update_finger d (currentSlot st d) (\<lambda>finger. finger\<lparr>isDown := False\<rparr>) st"
  | (arrive) "ie_type ie = EV_ABS" "ie_code ie = ABS_MT_TRACKING_ID" "ie_value ie \<noteq> - 1"
      "TouchReadThread_event d now ie st =
         update_finger d (currentSlot st d)
           (\<lambda>finger. finger
              \<lparr>touch_id := (int d * 2 + 1) * int MAX_FINGERS + int (currentSlot st d),
               isDown := True, startPos := pos finger, timestamp := now\<rparr>) st"
  | (move) p where
      "TouchReadThread_event d now ie st =
         update_finger d (currentSlot st d) (\<lambda>finger. finger\<lparr>pos := p finger\<rparr>) st"
  | (press) "ie_type ie = EV_ABS" "ie_code ie = ABS_MT_PRESSURE"
      "TouchReadThread_event d now ie st =
         update_finger d (currentSlot st d)
           (\<lambda>finger. finger\<lparr>pressure := of_int (ie_value ie) / 255\<rparr>) st"
  | (report) "ie_type ie = EV_SYN" "ie_code ie = SYN_REPORT"
      "TouchReadThread_event d now ie st = report_boundary d now st"
  | (ignored) "TouchReadThread_event d now ie st = st"
proof -
  consider (a) "ie_type ie = EV_ABS" "ie_code ie = ABS_MT_SLOT"
    | (b) "ie_type ie = EV_ABS" "ie_code ie = ABS_MT_TRACKING_ID" "ie_value ie = - 1"
    | (c) "ie_type ie = EV_ABS" "ie_code ie = ABS_MT_TRACKING_ID" "ie_value ie \<noteq> - 1"
    | (d) "ie_type ie = EV_ABS" "ie_code ie = ABS_MT_POSITION_X"
    | (e) "ie_type ie = EV_ABS" "ie_code ie = ABS_MT_POSITION_Y"
    | (f) "ie_type ie = EV_ABS" "ie_code ie = ABS_MT_PRESSURE"
    | (g) "ie_type ie = EV_SYN" "ie_code ie = SYN_REPORT"
    | (h) "ie_type ie = EV_ABS \<longrightarrow> ie_code ie \<noteq> ABS_MT_SLOT \<and> ie_code ie \<noteq> ABS_MT_TRACKING_ID \<and>
             ie_code ie \<noteq> ABS_MT_POSITION_X \<and> ie_code ie \<noteq> ABS_MT_POSITION_Y \<and>
             ie_code ie \<noteq> ABS_MT_PRESSURE"
          "\<not> (ie_type ie = EV_SYN \<and> ie_code ie = SYN_REPORT)"
    by blast
  then show thesis
  proof cases
    case a
    then have "TouchReadThread_event d now ie st =
        st\<lparr>currentSlot := (currentSlot st)
             (d := (if ie_value ie < 0 \<or> ie_value ie \<ge> int MAX_FINGERS then 0
                    else nat (ie_value ie)))\<rparr>"
      by (simp add: TouchReadThread_event_def Let_def)
    moreover have "(if ie_value ie < 0 \<or> ie_value ie \<ge> int MAX_FINGERS then 0
                    else nat (ie_value ie)) < MAX_FINGERS"
      by auto
    ultimately show thesis by (rule select)
  next
    case b
    then have "TouchReadThread_event d now ie st =
         update_finger d (currentSlot st d) (\<lambda>finger. finger\<lparr>isDown := False\<rparr>) st"
      by (simp add: TouchReadThread_event_def Let_def)
    with b show thesis by (rule lift)
  next
    case c
    then have "TouchReadThread_event d now ie st =
         update_finger d (currentSlot st d)
           (\<lambda>finger. finger
              \<lparr>touch_id := (int d * 2 + 1) * int MAX_FINGERS + int (currentSlot st d),
               isDown := True, startPos := pos finger, timestamp := now\<rparr>) st"
      by (simp add: TouchReadThread_event_def Let_def)
    with c show thesis by (rule arrive)
  next
    case d
    then have "TouchReadThread_event d now ie st =
      update_finger d (currentSlot st d)
        (\<lambda>finger. finger\<lparr>pos := (pos finger)\<lparr>vx := of_int (ie_value ie) * scaleX (g_devices st ! d)\<rparr>\<rparr>) st"
      by (simp add: TouchReadThread_event_def Let_def)
    then show thesis by (rule move)
  next
    case e
    then have "TouchReadThread_event d now ie st =
      update_finger d (currentSlot st d)
        (\<lambda>finger. finger\<lparr>pos := (pos finger)\<lparr>vy := of_int (ie_value ie) * scaleY (g_devices st ! d)\<rparr>\<rparr>) st"
      by (simp add: TouchReadThread_event_def Let_def)
    then show thesis by (rule move)
  next
    case f
    then have "TouchReadThread_event d now ie st =
         update_finger d (currentSlot st d)
           (\<lambda>finger. finger\<lparr>pressure := of_int (ie_value ie) / 255\<rparr>) st"
      by (simp add: TouchReadThread_event_def Let_def)
    with f show thesis by (rule press)
  next
    case g
    then have "TouchReadThread_event d now ie st = report_boundary d now st"
      by (simp add: TouchReadThread_event_def Let_def)
    with g show thesis by (rule report)
  next
    case h
    then have "TouchReadThread_event d now ie st = st"
      by (rule TouchReadThread_event_ignored)
    then show thesis by (rule ignored)
  qed
qed

lemma finger_counts_select [simp]: "finger_counts (st\<lparr>currentSlot := c\<rparr>) = finger_counts st"
  by (simp add: finger_counts_def)

lemma finger_counts_event [simp]:
  "finger_counts (TouchReadThread_event d now ie st) = finger_counts st"
  by (cases rule: TouchReadThread_event_cases [where d = d and now = now and ie = ie and st = st]) simp_all

lemma finger_counts_run [simp]: "finger_counts (run_events evs st) = finger_counts st"
  by (induction evs arbitrary: st) auto

lemma ten_slots_each_run: "ten_slots_each st \<Longrightarrow> ten_slots_each (run_events evs st)"
  using finger_counts_length [of "run_events evs st" st]
  by (simp add: ten_slots_each_def)

lemma slots_in_range_event:
  "slots_in_range st \<Longrightarrow> slots_in_range (TouchReadThread_event d now ie st)"
  by (cases rule: TouchReadThread_event_cases [where d = d and now = now and ie = ie and st = st]) (simp_all add: slots_in_range_def)

lemma slots_in_range_run: "slots_in_range st \<Longrightarrow> slots_in_range (run_events evs st)"
  by (induction evs arbitrary: st) (auto simp: slots_in_range_event)

lemma all_slots_select:
  "all_slots P st \<Longrightarrow> all_slots P (st\<lparr>currentSlot := c\<rparr>)"
  using all_slots_cong [of "st\<lparr>currentSlot := c\<rparr>" st P] by simp

lemma ten_slots_nth:
  "ten_slots_each st \<Longrightarrow> d < length (g_devices st) \<Longrightarrow>
   length (fingers (g_devices st ! d)) = MAX_FINGERS"
proof -
  assume a: "ten_slots_each st" and b: "d < length (g_devices st)"
  from b have "finger_counts st ! d = length (fingers (g_devices st ! d))"
    by (simp add: finger_counts_def)
  moreover from a b have "finger_counts st ! d = MAX_FINGERS"
    by (simp add: ten_slots_each_def)
  ultimately show ?thesis by simp
qed

text \<open>
  Claim C8. A tracking-id event with value \<open>-1\<close> clears the down flag of the current
  slot of its device and nothing else: position, origin, identity, velocity, pressure
  and time stamp of that slot stay, every other slot of every device stays, and so does
  the rest of the state.
\<close>

theorem lift_clears_down_flag_only:
  assumes "ie_type ie = EV_ABS" and "ie_code ie = ABS_MT_TRACKING_ID" and "ie_value ie = - 1"
    and "d < length (g_devices st)"
    and "currentSlot st d < length (fingers (g_devices st ! d))"
    and "st' = TouchReadThread_event d now ie st"
  shows "slot_of st' d (currentSlot st d) = (slot_of st d (currentSlot st d))\<lparr>isDown := False\<rparr> \<and>
         \<not> isDown (slot_of st' d (currentSlot st d)) \<and>
         pos (slot_of st' d (currentSlot st d)) = pos (slot_of st d (currentSlot st d)) \<and>
         startPos (slot_of st' d (currentSlot st d)) = startPos (slot_of st d (currentSlot st d)) \<and>
         touch_id (slot_of st' d (currentSlot st d)) = touch_id (slot_of st d (currentSlot st d)) \<and>
         velocity (slot_of st' d (currentSlot st d)) = velocity (slot_of st d (currentSlot st d)) \<and>
         pressure (slot_of st' d (currentSlot st d)) = pressure (slot_of st d (currentSlot st d)) \<and>
         timestamp (slot_of st' d (currentSlot st d)) = timestamp (slot_of st d (currentSlot st d)) \<and>
         (\<forall>d' s'. (d', s') \<noteq> (d, currentSlot st d) \<longrightarrow> slot_of st' d' s' = slot_of st d' s') \<and>
         finger_counts st' = finger_counts st \<and>
         st' = st\<lparr>g_devices := g_devices st'\<rparr>"
proof -
  from assms(1-3) have step: "TouchReadThread_event d now ie st =
      update_finger d (currentSlot st d) (\<lambda>finger. finger\<lparr>isDown := False\<rparr>) st"
    by (simp add: TouchReadThread_event_def Let_def)
  have rest: "update_finger d (currentSlot st d) (\<lambda>finger. finger\<lparr>isDown := False\<rparr>) st =
      st\<lparr>g_devices := g_devices (update_finger d (currentSlot st d) (\<lambda>finger. finger\<lparr>isDown := False\<rparr>) st)\<rparr>"
    by (simp add: update_finger_def)
  show ?thesis
    unfolding assms(6) step using assms(4,5) rest
    by (auto simp: slot_of_update_finger)
qed

theorem lift_clears_down_flag_only_witness:
  "0 < length (g_devices (run_events tap_down tap_ready)) \<and>
   currentSlot (run_events tap_down tap_ready) 0
     < length (fingers (g_devices (run_events tap_down tap_ready) ! 0)) \<and>
   isDown (slot_of (run_events tap_down tap_ready) 0 0) \<and>
   slot_of (TouchReadThread_event 0 1700000000050 (event EV_ABS ABS_MT_TRACKING_ID (- 1))
      (run_events tap_down tap_ready)) 0 0 =
     (slot_of (run_events tap_down tap_ready) 0 0)\<lparr>isDown := False\<rparr> \<and>
   pos (slot_of (TouchReadThread_event 0 1700000000050 (event EV_ABS ABS_MT_TRACKING_ID (- 1))
      (run_events tap_down tap_ready)) 0 0) = \<lparr>vx = 100, vy = 200\<rparr> \<and>
   touch_id (slot_of (TouchReadThread_event 0 1700000000050 (event EV_ABS ABS_MT_TRACKING_ID (- 1))
      (run_events tap_down tap_ready)) 0 0) = 10"
proof -
  have e: "0 < length (g_devices (run_events tap_down tap_ready))"
    "currentSlot (run_events tap_down tap_ready) 0
       < length (fingers (g_devices (run_events tap_down tap_ready) ! 0))"
    "isDown (slot_of (run_events tap_down tap_ready) 0 0)"
    "pos (slot_of (run_events tap_down tap_ready) 0 0) = \<lparr>vx = 100, vy = 200\<rparr>"
    "touch_id (slot_of (run_events tap_down tap_ready) 0 0) = 10"
    "currentSlot (run_events tap_down tap_ready) 0 = 0"
    by (simp_all add: tap_ready_value tap_down_def slot_of_def event_defs model_defs sqrt_less_iff)
  have i: "ie_type (event EV_ABS ABS_MT_TRACKING_ID (- 1)) = EV_ABS"
    "ie_code (event EV_ABS ABS_MT_TRACKING_ID (- 1)) = ABS_MT_TRACKING_ID"
    "ie_value (event EV_ABS ABS_MT_TRACKING_ID (- 1)) = - 1"
    by (simp_all add: event_def)
  from lift_clears_down_flag_only [OF i e(1,2) refl, of 1700000000050] e
  show ?thesis by simp
qed

subsection \<open>Init\<close>

lemma probe_devices_fresh:
  "list_all (\<lambda>device. fingers device = replicate MAX_FINGERS TouchPoint_init) (probe_devices ps)"
  by (induction ps rule: probe_devices.induct) (simp_all add: TouchDevice_init_def)

lemma Init_finish_fresh:
  "fresh_registry st \<Longrightarrow> fresh_registry (Init_finish w h screenSize st)"
  by (simp add: fresh_registry_def Init_finish_def Let_def list_all_iff)

lemma Init_finish_currentSlot: "currentSlot (Init_finish w h screenSize st) d = 0"
  by (simp add: Init_finish_def Let_def)

lemma Init_success:
  assumes "fst (Init env screenSize readOnly st0)"
  shows "fresh_registry (snd (Init env screenSize readOnly st0)) \<and>
         slots_in_range (snd (Init env screenSize readOnly st0)) \<and>
         g_initialized (snd (Init env screenSize readOnly st0)) \<and>
         g_devices (snd (Init env screenSize readOnly st0)) \<noteq> []"
proof -
  define st1 where "st1 = (Close st0)
            \<lparr>g_devices := [],
             g_readOnly := readOnly,
             g_screenSize :=
               (if vx screenSize > vy screenSize then screenSize
                else \<lparr>vx = vy screenSize, vy = vx screenSize\<rparr>)\<rparr>"
  define st2 where "st2 = st1\<lparr>g_devices := probe_devices (probes env)\<rparr>"
  define st3 where "st3 = st2\<lparr>g_outputFd := uinput_fd env\<rparr>"
  define w where "w = maximum (absX (g_devices st2 ! 0))"
  define h where "h = maximum (absY (g_devices st2 ! 0))"
  have f2: "fresh_registry st2" "fresh_registry st3"
    using probe_devices_fresh [of "probes env"]
    by (simp_all add: st2_def st3_def fresh_registry_def)
  have I: "Init env screenSize readOnly st0 =
     (if \<not> dir_opens env then (False, st1)
      else if g_devices st2 = [] then (False, st2)
      else if \<not> readOnly then
        (if g_outputFd st3 \<le> 0 then (False, st3)
         else if create_fails env then (False, st3)
         else (True, Init_finish w h screenSize st3))
      else (True, Init_finish w h screenSize st2))"
    by (simp add: Init_def Let_def st1_def st2_def st3_def w_def h_def)
  from assms have "snd (Init env screenSize readOnly st0) = Init_finish w h screenSize st3 \<or>
                   snd (Init env screenSize readOnly st0) = Init_finish w h screenSize st2"
    and ne: "g_devices st2 \<noteq> []"
    unfolding I by (auto split: if_splits)
  moreover have "g_devices st3 \<noteq> []" using ne by (simp add: st3_def)
  ultimately show ?thesis
    using f2 ne
    by (auto simp: Init_finish_fresh slots_in_range_def Init_finish_currentSlot)
       (simp_all add: Init_finish_def Let_def)
qed

lemma fresh_ten_slots: "fresh_registry st \<Longrightarrow> ten_slots_each st"
  by (simp add: fresh_registry_def ten_slots_each_def finger_counts_def list_all_iff map_replicate_const [symmetric])



lemma fresh_no_touch: "fresh_registry st \<Longrightarrow> GetTouchCount st = 0"
  by (auto simp: fresh_registry_def GetTouchCount_def all_fingers_def filter_empty_conv
        list_all_iff TouchPoint_init_def)

lemma fresh_pressure: "fresh_registry st \<Longrightarrow> all_slots pressure_normalised st"
  by (auto simp: fresh_registry_def all_slots_def slot_of_def list_all_iff
        pressure_normalised_def TouchPoint_init_def)

lemma example_state_ok:
  "ten_slots_each (example_state readOnly) \<and> slots_in_range (example_state readOnly) \<and>
   GetTouchCount (example_state readOnly) = 0 \<and>
   all_slots pressure_normalised (example_state readOnly)"
proof -
  have "fst (Init example_env example_screen readOnly state_init)"
    by (cases readOnly) (simp_all add: model_defs)
  from Init_success [OF this] show ?thesis
    by (simp add: example_state_def fresh_ten_slots fresh_no_touch fresh_pressure)
qed

text \<open>
  A failed \<open>Init\<close> leaves \<open>g_initialized\<close> false. When it fails at the directory or finds
  no device the registry is empty, and with an empty registry \<open>Down\<close>, \<open>Move\<close>, \<open>Up\<close> and
  \<open>Close\<close> change nothing and the queries report no touch.
\<close>

lemma Init_failure_uninitialized:
  "\<not> fst (Init env screenSize readOnly st0) \<Longrightarrow>
   \<not> g_initialized (snd (Init env screenSize readOnly st0))"
  by (simp add: Init_def Let_def Close_def split: if_splits)

lemma Init_failure_empty_registry:
  "\<not> dir_opens env \<or> probe_devices (probes env) = [] \<Longrightarrow>
   \<not> fst (Init env screenSize readOnly st0) \<and>
   g_devices (snd (Init env screenSize readOnly st0)) = []"
  by (auto simp: Init_def Let_def)

lemma empty_registry_no_ops:
  assumes "g_devices st = []" and "\<not> g_initialized st"
  shows "Down x y touchId now st = st" "Move x y touchId st = st" "Up touchId st = st"
    "Close st = st" "GetTouchCount st = 0" "GetActiveTouches st = []" "\<not> IsTouching st"
  using assms
  by (simp_all add: Down_def Move_def Up_def Close_def GetTouchCount_def GetActiveTouches_def
        IsTouching_def all_fingers_def)

text \<open>
  Claim C5 where \<open>Init\<close> fails at \<^verbatim>\<open>open("/dev/uinput")\<close>: it returns false and
  leaves \<open>g_initialized\<close> false, but the device it found stays in the registry, so the
  guard \<^verbatim>\<open>g_devices.empty()\<close> of \<open>Down\<close> does not hold: \<open>Down\<close> sets slot 9 of device 0
  down and issues a write on descriptor \<open>-1\<close>.
\<close>

theorem failed_Init_leaves_registry:
  "\<not> fst (Init uinput_fails_env example_screen False state_init) \<and>
   \<not> g_initialized (snd (Init uinput_fails_env example_screen False state_init)) \<and>
   length (g_devices (snd (Init uinput_fails_env example_screen False state_init))) = 1 \<and>
   GetTouchCount (snd (Init uinput_fails_env example_screen False state_init)) = 0 \<and>
   GetTouchCount (Down 100 200 0 1000 (snd (Init uinput_fails_env example_screen False state_init))) = 1 \<and>
   map fst (writes (Down 100 200 0 1000 (snd (Init uinput_fails_env example_screen False state_init)))) = [- 1]"
  by (simp add: uinput_fails_env_def GetTouchCount_def all_fingers_def Down_def Upload_def
        finger_events_def model_defs)

subsection \<open>Identities\<close>


lemma identity_assigned_event:
  assumes "all_slots identity_assigned st"
  shows "all_slots identity_assigned (TouchReadThread_event d now ie st)"
proof (cases rule: TouchReadThread_event_cases [where d = d and now = now and ie = ie and st = st])
  case (select c)
  with assms show ?thesis by (simp add: all_slots_select)
next
  case lift
  show ?thesis unfolding lift(4) using assms
    by (rule all_slots_update_finger) (simp add: identity_assigned_def)
next
  case arrive
  show ?thesis unfolding arrive(4) using assms
    by (rule all_slots_update_finger) (simp add: identity_assigned_def hardware_identity_def)
next
  case (move p)
  show ?thesis unfolding move using assms
    by (rule all_slots_update_finger) (simp add: identity_assigned_def)
next
  case press
  show ?thesis unfolding press(3) using assms
    by (rule all_slots_update_finger) (simp add: identity_assigned_def)
next
  case report
  show ?thesis unfolding report(3) using assms
    by (rule all_slots_report_boundary) (simp add: identity_assigned_def update_velocity_def)
next
  case ignored
  with assms show ?thesis by simp
qed

lemma identity_assigned_run:
  "all_slots identity_assigned st \<Longrightarrow> all_slots identity_assigned (run_events evs st)"
  by (induction evs arbitrary: st) (auto simp: identity_assigned_event)




lemma finger_counts_Upload [simp]: "finger_counts (Upload st) = finger_counts st"
  by (simp add: finger_counts_def)

lemma finger_counts_action [simp]: "finger_counts (run_action a st) = finger_counts st"
  by (cases a) (simp_all add: Down_def Move_def Up_def)

lemma finger_counts_actions [simp]: "finger_counts (run_actions acts st) = finger_counts st"
  by (induction acts arbitrary: st) simp_all

















subsection \<open>Pressure\<close>

lemma pressure_normalised_event:
  assumes "all_slots pressure_normalised st" and "raw_pressure_in_range ie"
  shows "all_slots pressure_normalised (TouchReadThread_event d now ie st)"
proof (cases rule: TouchReadThread_event_cases [where d = d and now = now and ie = ie and st = st])
  case (select c)
  with assms show ?thesis by (simp add: all_slots_select)
next
  case lift
  show ?thesis unfolding lift(4) using assms(1)
    by (rule all_slots_update_finger) (simp add: pressure_normalised_def)
next
  case arrive
  show ?thesis unfolding arrive(4) using assms(1)
    by (rule all_slots_update_finger) (simp add: pressure_normalised_def)
next
  case (move p)
  show ?thesis unfolding move using assms(1)
    by (rule all_slots_update_finger) (simp add: pressure_normalised_def)
next
  case press
  with assms(2) have "0 \<le> ie_value ie \<and> ie_value ie \<le> 255"
    by (simp add: raw_pressure_in_range_def)
  then have "\<And>t. pressure_normalised d (currentSlot st d)
              (t\<lparr>pressure := of_int (ie_value ie) / 255\<rparr>)"
    by (simp add: pressure_normalised_def)
  with assms(1) show ?thesis unfolding press(3)
    by (rule all_slots_update_finger)
next
  case report
  show ?thesis unfolding report(3) using assms(1)
    by (rule all_slots_report_boundary) (simp add: pressure_normalised_def update_velocity_def)
next
  case ignored
  with assms show ?thesis by simp
qed

lemma pressure_stays_normalised:
  assumes "all_slots pressure_normalised st0"
    and "list_all (\<lambda>(d, now, ie). raw_pressure_in_range ie) evs"
  shows "all_slots pressure_normalised (run_events evs st0)"
  using assms
proof (induction evs arbitrary: st0)
  case Nil
  then show ?case by simp
next
  case (Cons e evs)
  obtain d now ie where e: "e = (d, now, ie)" by (cases e)
  with Cons.prems(2) have r: "raw_pressure_in_range ie"
    and rest: "list_all (\<lambda>(d, now, ie). raw_pressure_in_range ie) evs"
    by simp_all
  from Cons.prems(1) r have "all_slots pressure_normalised (TouchReadThread_event d now ie st0)"
    by (rule pressure_normalised_event)
  with rest show ?case unfolding e by (simp add: Cons.IH)
qed

lemma TouchReadThread_pressure:
  "TouchReadThread_event d now (event EV_ABS ABS_MT_PRESSURE v) st =
     update_finger d (currentSlot st d) (\<lambda>finger. finger\<lparr>pressure := of_int v / 255\<rparr>) st"
  by (simp add: TouchReadThread_event_def event_def Let_def)

text \<open>
  Claim C9, as amended. A pressure event stores its raw value divided by 255, without
  a clamp. From a registry whose pressures lie in \<open>[0, 1]\<close> (the default pressure is 1),
  if every decoded pressure event carries a raw value within \<open>0..255\<close>, every stored
  pressure lies in \<open>[0, 1]\<close> after any sequence of events.
\<close>

theorem pressure_normalised_for_raw_in_range:
  assumes "ten_slots_each st0" and "slots_in_range st0" and "all_slots pressure_normalised st0"
    and "list_all (\<lambda>(d, now, ie). raw_pressure_in_range ie) evs"
    and "st = run_events evs st0"
  shows "all_slots pressure_normalised st \<and>
         (\<forall>d now v. d < length (g_devices st) \<longrightarrow>
            pressure (slot_of (TouchReadThread_event d now (event EV_ABS ABS_MT_PRESSURE v) st)
                        d (currentSlot st d)) = of_int v / 255)"
proof -
  have ten: "ten_slots_each st" using assms(1,5) by (simp add: ten_slots_each_run)
  have rng: "slots_in_range st" using assms(2,5) by (simp add: slots_in_range_run)
  have a: "all_slots pressure_normalised st"
    unfolding assms(5) using assms(3,4) by (rule pressure_stays_normalised)
  have b: "pressure (slot_of (TouchReadThread_event d now (event EV_ABS ABS_MT_PRESSURE v) st)
                        d (currentSlot st d)) = of_int v / 255"
    if "d < length (g_devices st)" for d now v
  proof -
    from rng have "currentSlot st d < MAX_FINGERS" by (simp add: slots_in_range_def)
    with ten that have "currentSlot st d < length (fingers (g_devices st ! d))"
      by (simp add: ten_slots_nth)
    with that show ?thesis
      unfolding TouchReadThread_pressure by (simp add: slot_of_update_finger)
  qed
  from a b show ?thesis by blast
qed

theorem pressure_normalised_for_raw_in_range_witness:
  "ten_slots_each (example_state True) \<and> slots_in_range (example_state True) \<and>
   all_slots pressure_normalised (example_state True) \<and>
   list_all (\<lambda>(d, now, ie). raw_pressure_in_range ie) [(0, 1000, event EV_ABS ABS_MT_PRESSURE 51)] \<and>
   pressure (slot_of (run_events [(0, 1000, event EV_ABS ABS_MT_PRESSURE 51)] (example_state True)) 0 0)
     = 1 / 5 \<and>
   all_slots pressure_normalised
     (run_events [(0, 1000, event EV_ABS ABS_MT_PRESSURE 51)] (example_state True))"
proof -
  have h: "ten_slots_each (example_state True)" "slots_in_range (example_state True)"
    "all_slots pressure_normalised (example_state True)"
    using example_state_ok [of True] by simp_all
  have l: "list_all (\<lambda>(d, now, ie). raw_pressure_in_range ie)
             [(0, 1000, event EV_ABS ABS_MT_PRESSURE 51)]"
    by (simp add: raw_pressure_in_range_def event_def)
  have p: "pressure (slot_of (run_events [(0, 1000, event EV_ABS ABS_MT_PRESSURE 51)]
             (example_state True)) 0 0) = 1 / 5"
    by (simp add: example_state_value slot_of_def TouchReadThread_event_def model_defs)
  from pressure_normalised_for_raw_in_range [OF h l refl] h l p show ?thesis by simp
qed

text \<open>
  Claim C9, as stated, fails for a raw value above 255: the event with value 510 stores
  the pressure 2.
\<close>

theorem pressure_out_of_range_counterexample:
  "pressure (slot_of (run_events [(0, 1000, event EV_ABS ABS_MT_PRESSURE 510)]
      (example_state True)) 0 0) = 2 \<and>
   \<not> pressure_normalised 0 0 (slot_of (run_events [(0, 1000, event EV_ABS ABS_MT_PRESSURE 510)]
      (example_state True)) 0 0)"
  by (simp add: example_state_value slot_of_def TouchReadThread_event_def model_defs
        pressure_normalised_def)

subsection \<open>The gesture window\<close>

text \<open>
  No decoded event writes \<open>touchStartTime\<close> or \<open>touchStartPos\<close>: the recogniser only
  reads them, so they keep their initial zeros.
\<close>

lemma touchStart_deliver [simp]:
  "touchStartTime (g_gestureState (deliver g st)) = touchStartTime (g_gestureState st)"
  "touchStartPos (g_gestureState (deliver g st)) = touchStartPos (g_gestureState st)"
  by (simp_all add: deliver_def)

lemma touchStart_ended [simp]:
  "touchStartTime (g_gestureState (RecognizeGesture_ended now avgPos st)) = touchStartTime (g_gestureState st)"
  "touchStartPos (g_gestureState (RecognizeGesture_ended now avgPos st)) = touchStartPos (g_gestureState st)"
  by (simp_all add: RecognizeGesture_ended_def Let_def)

lemma touchStart_active [simp]:
  "touchStartTime (g_gestureState (RecognizeGesture_active now active avgPos st)) = touchStartTime (g_gestureState st)"
  "touchStartPos (g_gestureState (RecognizeGesture_active now active avgPos st)) = touchStartPos (g_gestureState st)"
  by (simp_all add: RecognizeGesture_active_def Let_def)

lemma touchStart_RecognizeGesture [simp]:
  "touchStartTime (g_gestureState (RecognizeGesture now device st)) = touchStartTime (g_gestureState st)"
  "touchStartPos (g_gestureState (RecognizeGesture now device st)) = touchStartPos (g_gestureState st)"
  by (simp_all add: RecognizeGesture_def Let_def)

lemma gestureState_Upload [simp]: "g_gestureState (Upload st) = g_gestureState st"
  by (simp add: Upload_def Let_def)

lemma gestureState_update_finger [simp]: "g_gestureState (update_finger d s f st) = g_gestureState st"
  by (simp add: update_finger_def)

lemma touchStart_report_boundary [simp]:
  "touchStartTime (g_gestureState (report_boundary d now st)) = touchStartTime (g_gestureState st)"
  "touchStartPos (g_gestureState (report_boundary d now st)) = touchStartPos (g_gestureState st)"
  by (simp_all add: report_boundary_def Let_def)

lemma touchStart_never_written:
  "touchStartTime (g_gestureState (TouchReadThread_event d now ie st)) = touchStartTime (g_gestureState st) \<and>
   touchStartPos (g_gestureState (TouchReadThread_event d now ie st)) = touchStartPos (g_gestureState st)"
  by (cases rule: TouchReadThread_event_cases [where d = d and now = now and ie = ie and st = st])
     simp_all

lemma touchStart_never_written_run:
  "touchStartTime (g_gestureState (run_events evs st)) = touchStartTime (g_gestureState st) \<and>
   touchStartPos (g_gestureState (run_events evs st)) = touchStartPos (g_gestureState st)"
  by (induction evs arbitrary: st) (auto simp: touchStart_never_written)

text \<open>
  Claim C3 at the report of the first contact: the count of active slots goes from 0
  to 1 at clock reading 1700000000000 with the contact at (100, 200), and the recorded
  window start is still time 0 and position (0, 0).
\<close>

theorem window_start_not_recorded:
  "GetTouchCount tap_ready = 0 \<and>
   GetTouchCount (run_events tap_down tap_ready) = 1 \<and>
   touchStartTime (g_gestureState (run_events tap_down tap_ready)) = 0 \<and>
   touchStartPos (g_gestureState (run_events tap_down tap_ready)) = vec0"
  by (simp add: tap_ready_value tap_down_def GetTouchCount_def all_fingers_def
        event_defs model_defs sqrt_less_iff)

text \<open>
  Claim C2 for a contact that arrives at (100, 200) and lifts 50 ms later without
  moving, under the default thresholds: the slot goes down and up again, and no
  gesture is delivered. The duration is measured from time 0, so it is the clock
  reading itself and never under \<open>tapMaxDuration\<close>.
\<close>

theorem tap_not_recognised:
  "GetTouchCount (run_events tap_down tap_ready) = 1 \<and>
   pos (fingers (g_devices (run_events tap_down tap_ready) ! 0) ! 0) = \<lparr>vx = 100, vy = 200\<rparr> \<and>
   GetTouchCount (run_events (tap_down @ tap_up) tap_ready) = 0 \<and>
   delivered (run_events (tap_down @ tap_up) tap_ready) = []"
  by (simp add: tap_ready_value tap_down_def tap_up_def GetTouchCount_def all_fingers_def
        event_defs model_defs sqrt_less_iff)

text \<open>
  Only within the first 300 ms of the clock is the end of a contact classified as a
  tap, and then as a double tap at position (0, 0): the centroid of no fingers, near
  the zero-initialised last tap.
\<close>

lemma tap_at_clock_start:
  "delivered (run_events
     [(0, 100, event EV_ABS ABS_MT_TRACKING_ID 42),
      (0, 100, event EV_ABS ABS_MT_POSITION_X 100),
      (0, 100, event EV_ABS ABS_MT_POSITION_Y 200),
      (0, 100, event EV_SYN SYN_REPORT 0),
      (0, 150, event EV_ABS ABS_MT_TRACKING_ID (- 1)),
      (0, 150, event EV_SYN SYN_REPORT 0)] tap_ready) =
   [GestureData_init\<lparr>gesture_type := GestureType_DoubleTap, position := vec0\<rparr>]"
  by (simp add: tap_ready_value event_defs model_defs sqrt_less_iff)

subsection \<open>The coordinate mapper\<close>

lemma SetOrientation_codes:
  "g_orientation (SetOrientation 0 st) = 0 \<and> g_orientation (SetOrientation 1 st) = 1 \<and>
   g_orientation (SetOrientation 2 st) = 2 \<and> g_orientation (SetOrientation 3 st) = 3"
  by (simp add: SetOrientation_def c_mod_def c_div_def)

text \<open>
  \<open>ScreenToTouch\<close> multiplies by the scale and never looks at the orientation. It
  undoes \<open>TouchToScreen\<close> for orientation 0; for the orientations 1 to 3 it returns the
  rotated point, scaled.
\<close>

lemma round_trip_unrotated:
  assumes "g_orientation st \<noteq> 1" "g_orientation st \<noteq> 2" "g_orientation st \<noteq> 3"
    and "vx (g_touchScale st) \<noteq> 0" "vy (g_touchScale st) \<noteq> 0"
  shows "ScreenToTouch st (TouchToScreen st p) = p"
  using assms by (simp add: ScreenToTouch_def TouchToScreen_def vec_mul_def)

lemma round_trip_rotated:
  assumes "vx (g_touchScale st) \<noteq> 0" "vy (g_touchScale st) \<noteq> 0"
  shows "g_orientation st = 1 \<Longrightarrow> ScreenToTouch st (TouchToScreen st p) =
           \<lparr>vx = vy p / vy (g_touchScale st) * vx (g_touchScale st),
            vy = (vy (g_screenSize st) - vx p / vx (g_touchScale st)) * vy (g_touchScale st)\<rparr>"
    and "g_orientation st = 2 \<Longrightarrow> ScreenToTouch st (TouchToScreen st p) =
           \<lparr>vx = (vx (g_screenSize st) - vx p / vx (g_touchScale st)) * vx (g_touchScale st),
            vy = (vy (g_screenSize st) - vy p / vy (g_touchScale st)) * vy (g_touchScale st)\<rparr>"
    and "g_orientation st = 3 \<Longrightarrow> ScreenToTouch st (TouchToScreen st p) =
           \<lparr>vx = (vx (g_screenSize st) - vy p / vy (g_touchScale st)) * vx (g_touchScale st),
            vy = vx p / vx (g_touchScale st) * vy (g_touchScale st)\<rparr>"
  by (simp_all add: ScreenToTouch_def TouchToScreen_def vec_mul_def)

text \<open>
  Claim C1 at orientation 2 on the example phone (scale 1, screen 2400 by 1080): the
  point (100, 200) comes back as (2300, 880).
\<close>

theorem round_trip_fails_when_rotated:
  "g_orientation rotated_state = 2 \<and>
   TouchToScreen rotated_state \<lparr>vx = 100, vy = 200\<rparr> = \<lparr>vx = 2300, vy = 880\<rparr> \<and>
   ScreenToTouch rotated_state (TouchToScreen rotated_state \<lparr>vx = 100, vy = 200\<rparr>)
     = \<lparr>vx = 2300, vy = 880\<rparr>"
  by (simp add: rotated_state_def ScreenToTouch_def TouchToScreen_def SetOrientation_def
        c_mod_def c_div_def vec_mul_def example_state_scale)

end
